theory Spec2Isabelle
  imports Complex_Main
begin

section \<open>JavaScript values\<close>

text \<open>
  Numbers are IEEE doubles in the source.  A finite double is identified with the real
  number it denotes (rounding and the sign of zero are not modelled); the three
  non-finite values are kept apart, because \<open>convertAttributeFromXml\<close> tests for them.
\<close>

datatype jsnum = NaN | PosInf | NegInf | Fin real

datatype jsval =
    Undefined
  | Null
  | JBool bool
  | JNum jsnum
  | JStr string
  | JObj nat

datatype jstype = TUndefined | TObject | TBoolean | TNumber | TString | TFunction

datatype objkind = PlainObject | ArrayObject | FunctionObject

text \<open>
  An object of the heap: the name of its constructor, whether it is a plain object, an
  array or a function, and its enumerable properties in order of insertion.
\<close>

record jsobj =
  ctor :: string
  kind :: objkind
  props :: "(string \<times> jsval) list"

type_synonym heap = "nat \<Rightarrow> jsobj"

datatype exn = TypeError string | Error string | DOMException string

fun message :: "exn \<Rightarrow> string" where
  "message (TypeError m) = m"
| "message (Error m) = m"
| "message (DOMException m) = m"

text \<open>
  The built-ins of the language and the helpers that \<open>mxObjectCodec.js\<close> imports from
  modules outside the sources (\<open>Utils.isNumeric\<close>, \<open>Utils.isInteger\<close>,
  \<open>mxObjectIdentity.FIELD_NAME\<close>) are parameters of the model.  So are the members an
  object inherits from the prototype of its constructor (\<open>inherited\<close>, by the name of the
  constructor and the key: \<open>toString\<close> or \<open>constructor\<close> on every object, \<open>push\<close> on
  an array), and the names the document accepts for an element or an attribute
  (\<open>isXmlName\<close>).
\<close>

record jsenv =
  parseFloat :: "string \<Rightarrow> jsnum"
  stringToNumber :: "string \<Rightarrow> jsnum"
  numberToString :: "jsnum \<Rightarrow> string"
  objToPrimitive :: "nat \<Rightarrow> jsval"
  objToString :: "nat \<Rightarrow> string"
  isNumeric :: "string \<Rightarrow> bool"
  isInteger :: "string \<Rightarrow> bool"
  FIELD_NAME :: string
  inherited :: "string \<Rightarrow> string \<Rightarrow> jsval option"
  isXmlName :: "string \<Rightarrow> bool"

definition is_nullish :: "jsval \<Rightarrow> bool" where
  \<comment> \<open>\<open>v == null\<close>\<close>
  "is_nullish v = (v = Undefined \<or> v = Null)"

definition typeof :: "heap \<Rightarrow> jsval \<Rightarrow> jstype" where
  "typeof h v =
     (case v of
        Undefined \<Rightarrow> TUndefined
      | Null \<Rightarrow> TObject
      | JBool b \<Rightarrow> TBoolean
      | JNum n \<Rightarrow> TNumber
      | JStr s \<Rightarrow> TString
      | JObj a \<Rightarrow> (if kind (h a) = FunctionObject then TFunction else TObject))"

definition js_truthy :: "jsval \<Rightarrow> bool" where
  "js_truthy v =
     (case v of
        Undefined \<Rightarrow> False
      | Null \<Rightarrow> False
      | JBool b \<Rightarrow> b
      | JNum n \<Rightarrow> (case n of NaN \<Rightarrow> False | Fin r \<Rightarrow> r \<noteq> 0 | _ \<Rightarrow> True)
      | JStr s \<Rightarrow> s \<noteq> []
      | JObj a \<Rightarrow> True)"

definition js_toString :: "jsenv \<Rightarrow> jsval \<Rightarrow> string" where
  \<comment> \<open>\<open>String(v)\<close>, as template literals and \<open>setAttribute\<close> apply it\<close>
  "js_toString env v =
     (case v of
        Undefined \<Rightarrow> ''undefined''
      | Null \<Rightarrow> ''null''
      | JBool b \<Rightarrow> (if b then ''true'' else ''false'')
      | JNum n \<Rightarrow> numberToString env n
      | JStr s \<Rightarrow> s
      | JObj a \<Rightarrow> objToString env a)"

definition opt_toString :: "string option \<Rightarrow> string" where
  \<comment> \<open>a name that may be \<open>null\<close>, inside a template literal or as a property key\<close>
  "opt_toString n = (case n of None \<Rightarrow> ''null'' | Some s \<Rightarrow> s)"

subsection \<open>Loose equality\<close>

fun num_eq :: "jsnum \<Rightarrow> jsnum \<Rightarrow> bool" where
  "num_eq NaN _ = False"
| "num_eq _ NaN = False"
| "num_eq a b = (a = b)"

definition bool_to_number :: "jsval \<Rightarrow> jsval" where
  "bool_to_number v = (case v of JBool b \<Rightarrow> JNum (Fin (if b then 1 else 0)) | _ \<Rightarrow> v)"

fun prim_loose_eq :: "jsenv \<Rightarrow> jsval \<Rightarrow> jsval \<Rightarrow> bool" where
  "prim_loose_eq env Undefined Undefined = True"
| "prim_loose_eq env Undefined Null = True"
| "prim_loose_eq env Null Undefined = True"
| "prim_loose_eq env Null Null = True"
| "prim_loose_eq env (JNum x) (JNum y) = num_eq x y"
| "prim_loose_eq env (JStr s) (JStr t) = (s = t)"
| "prim_loose_eq env (JNum x) (JStr t) = num_eq x (stringToNumber env t)"
| "prim_loose_eq env (JStr s) (JNum y) = num_eq (stringToNumber env s) y"
| "prim_loose_eq env _ _ = False"

definition loose_eq :: "jsenv \<Rightarrow> jsval \<Rightarrow> jsval \<Rightarrow> bool" where
  \<comment> \<open>\<open>a == b\<close>: objects by identity, an object against a primitive through
      \<open>ToPrimitive\<close>, booleans through \<open>ToNumber\<close>, a number against a string through
      \<open>ToNumber\<close> of the string\<close>
  "loose_eq env a b =
     (case (a, b) of
        (JObj x, JObj y) \<Rightarrow> x = y
      | (JObj x, _) \<Rightarrow>
          \<not> is_nullish b \<and>
          prim_loose_eq env (bool_to_number (objToPrimitive env x)) (bool_to_number b)
      | (_, JObj y) \<Rightarrow>
          \<not> is_nullish a \<and>
          prim_loose_eq env (bool_to_number a) (bool_to_number (objToPrimitive env y))
      | _ \<Rightarrow> prim_loose_eq env (bool_to_number a) (bool_to_number b))"

subsection \<open>Properties\<close>

fun set_assoc :: "('k \<times> 'v) list \<Rightarrow> 'k \<Rightarrow> 'v \<Rightarrow> ('k \<times> 'v) list" where
  \<comment> \<open>assignment to a key: an existing entry keeps its place, a new one goes last\<close>
  "set_assoc [] k v = [(k, v)]"
| "set_assoc ((k', v') # al) k v =
     (if k' = k then (k, v) # al else (k', v') # set_assoc al k v)"

definition set_prop :: "jsobj \<Rightarrow> string \<Rightarrow> jsval \<Rightarrow> jsobj" where
  \<comment> \<open>\<open>obj[name] = value\<close>\<close>
  "set_prop obj name v = obj\<lparr>props := set_assoc (props obj) name v\<rparr>"

definition digit_val :: "char \<Rightarrow> nat option" where
  "digit_val c =
     (let n = (of_char c :: nat) in if 48 \<le> n \<and> n \<le> 57 then Some (n - 48) else None)"

fun nat_of_digits :: "nat \<Rightarrow> string \<Rightarrow> nat option" where
  "nat_of_digits acc [] = Some acc"
| "nat_of_digits acc (c # cs) =
     (case digit_val c of None \<Rightarrow> None | Some d \<Rightarrow> nat_of_digits (10 * acc + d) cs)"

definition index_of_name :: "string \<Rightarrow> nat option" where
  \<comment> \<open>the array index a property key denotes, if it is a canonical one\<close>
  "index_of_name s =
     (if s = [] \<or> (hd s = CHR ''0'' \<and> length s > 1) then None
      else (case nat_of_digits 0 s of
              None \<Rightarrow> None
            | Some n \<Rightarrow> (if n < 2 ^ 32 - 1 then Some n else None)))"

definition digit_char :: "nat \<Rightarrow> char" where
  "digit_char d = char_of (48 + d)"

fun string_of_nat :: "nat \<Rightarrow> string" where
  "string_of_nat n =
     (if n < 10 then [digit_char n] else string_of_nat (n div 10) @ [digit_char (n mod 10)])"

declare string_of_nat.simps [simp del]

definition for_in :: "jsobj \<Rightarrow> (string \<times> jsval) list" where
  \<comment> \<open>\<open>for (const i in obj)\<close> with \<open>obj[i]\<close>: index keys ascending, then the other keys
      in order of insertion\<close>
  "for_in obj =
     sort_key (\<lambda>p. the (index_of_name (fst p)))
       (filter (\<lambda>p. index_of_name (fst p) \<noteq> None) (props obj)) @
     filter (\<lambda>p. index_of_name (fst p) = None) (props obj)"

definition array_length :: "jsobj \<Rightarrow> nat" where
  \<comment> \<open>\<open>length\<close> of an array: one more than its greatest index\<close>
  "array_length obj =
     fold (\<lambda>p n. case index_of_name (fst p) of None \<Rightarrow> n | Some i \<Rightarrow> max n (Suc i))
       (props obj) 0"

definition get_prop :: "jsenv \<Rightarrow> jsobj \<Rightarrow> string \<Rightarrow> jsval" where
  \<comment> \<open>\<open>obj[name]\<close>: the object's own property, else the \<open>length\<close> of an array, else
      the member it inherits; a property found nowhere reads as \<open>undefined\<close>\<close>
  "get_prop env obj name =
     (case map_of (props obj) name of
        Some v \<Rightarrow> v
      | None \<Rightarrow>
          (if kind obj = ArrayObject \<and> name = ''length''
           then JNum (Fin (real (array_length obj)))
           else (case inherited env (ctor obj) name of None \<Rightarrow> Undefined | Some v \<Rightarrow> v)))"

definition has_length :: "jsenv \<Rightarrow> heap \<Rightarrow> jsval \<Rightarrow> exn + bool" where
  \<comment> \<open>\<open>typeof value.length !== 'undefined'\<close>; reading a property of \<open>null\<close> or
      \<open>undefined\<close> throws\<close>
  "has_length env h v =
     (case v of
        Undefined \<Rightarrow> Inl (TypeError ''Cannot read properties of undefined'')
      | Null \<Rightarrow> Inl (TypeError ''Cannot read properties of null'')
      | JBool b \<Rightarrow> Inr False
      | JNum n \<Rightarrow> Inr False
      | JStr s \<Rightarrow> Inr True
      | JObj a \<Rightarrow>
          Inr (kind (h a) \<noteq> PlainObject \<or> get_prop env (h a) ''length'' \<noteq> Undefined))"

definition to_number :: "jsenv \<Rightarrow> jsval \<Rightarrow> jsnum" where
  \<comment> \<open>\<open>ToNumber\<close>, an object through \<open>ToPrimitive\<close>\<close>
  "to_number env v =
     (case (case v of JObj a \<Rightarrow> objToPrimitive env a | _ \<Rightarrow> v) of
        Undefined \<Rightarrow> NaN
      | Null \<Rightarrow> Fin 0
      | JBool b \<Rightarrow> Fin (if b then 1 else 0)
      | JNum n \<Rightarrow> n
      | JStr s \<Rightarrow> stringToNumber env s
      | JObj a \<Rightarrow> NaN)"

definition length_positive :: "jsenv \<Rightarrow> heap \<Rightarrow> jsval \<Rightarrow> bool" where
  \<comment> \<open>\<open>v.length > 0\<close> for a value \<open>v\<close> that is not \<open>null\<close>: a string has its length, an
      object the property, a number or a boolean none\<close>
  "length_positive env h v =
     (case to_number env
             (case v of
                JStr s \<Rightarrow> JNum (Fin (real (length s)))
              | JObj a \<Rightarrow> get_prop env (h a) ''length''
              | _ \<Rightarrow> Undefined) of
        Fin r \<Rightarrow> 0 < r
      | PosInf \<Rightarrow> True
      | _ \<Rightarrow> False)"

section \<open>XML nodes\<close>

datatype xnode =
    Element (nodeName: string) (attributes: "(string \<times> string) list") (childNodes: "xchild list")
and xchild =
    ElementNode xnode
  | TextNode string

text \<open>
  The document refuses a name it does not accept, for an element or for an attribute, with
  the exception \<open>InvalidCharacterError\<close>.
\<close>

definition createElement :: "jsenv \<Rightarrow> string \<Rightarrow> exn + xnode" where
  \<comment> \<open>\<open>document.createElement(name)\<close>\<close>
  "createElement env name =
     (if isXmlName env name then Inr (Element name [] [])
      else Inl (DOMException ''InvalidCharacterError''))"

definition getAttribute :: "xnode \<Rightarrow> string \<Rightarrow> string option" where
  "getAttribute node name = map_of (attributes node) name"

definition js_of_option :: "string option \<Rightarrow> jsval" where
  \<comment> \<open>what \<open>getAttribute\<close> answers, as a value: the string, or \<open>null\<close> for a missing
      attribute\<close>
  "js_of_option x = (case x of None \<Rightarrow> Null | Some v \<Rightarrow> JStr v)"

definition dom_setAttribute :: "jsenv \<Rightarrow> xnode \<Rightarrow> string \<Rightarrow> string \<Rightarrow> exn + xnode" where
  \<comment> \<open>\<open>node.setAttribute(name, value)\<close>\<close>
  "dom_setAttribute env node name v =
     (if isXmlName env name
      then Inr (Element (nodeName node) (set_assoc (attributes node) name v) (childNodes node))
      else Inl (DOMException ''InvalidCharacterError''))"

definition appendChild :: "xnode \<Rightarrow> xchild \<Rightarrow> xnode" where
  "appendChild node child =
     Element (nodeName node) (attributes node) (childNodes node @ [child])"

fun getTextContent :: "xnode \<Rightarrow> string"
and child_text :: "xchild \<Rightarrow> string"
and children_text :: "xchild list \<Rightarrow> string" where
  "getTextContent (Element n as cs) = children_text cs"
| "child_text (ElementNode e) = getTextContent e"
| "child_text (TextNode t) = t"
| "children_text [] = []"
| "children_text (c # cs) = child_text c @ children_text cs"

section \<open>The object codec: configuration\<close>

text \<open>
  \<open>class mxObjectCodec\<close>.  \<open>newInstance\<close> is the object that
  \<open>new this.template.constructor()\<close> builds; the constructor itself is outside the
  sources.  \<open>mapping\<close> and \<open>reverse\<close> are objects of the language, read with
  \<open>this.mapping[fieldname]\<close> and \<open>this.reverse[attributename]\<close>: a name they do not
  hold themselves finds the member they inherit, if there is one.
\<close>

record codec =
  template :: jsobj
  newInstance :: jsobj
  exclude :: "string list"
  idrefs :: "string list"
  mapping :: jsobj
  reverse :: jsobj

definition empty_array :: jsobj where
  \<comment> \<open>\<open>[]\<close>\<close>
  "empty_array = \<lparr>ctor = ''Array'', kind = ArrayObject, props = []\<rparr>"

definition empty_object :: jsobj where
  \<comment> \<open>\<open>{}\<close>\<close>
  "empty_object = \<lparr>ctor = ''Object'', kind = PlainObject, props = []\<rparr>"

definition mxObjectCodec ::
  "jsenv \<Rightarrow> jsobj \<Rightarrow> jsobj \<Rightarrow> string list option \<Rightarrow> string list option \<Rightarrow>
   jsobj option \<Rightarrow> codec" where
  \<comment> \<open>the constructor: absent arguments become empty arrays, and \<open>reverse\<close> is the
      object \<open>{}\<close> filled by \<open>this.reverse[this.mapping[i]] = i\<close> for each \<open>i in mapping\<close>\<close>
  "mxObjectCodec env tmpl inst excl refs mp =
     (let m = (case mp of None \<Rightarrow> empty_array | Some x \<Rightarrow> x) in
      \<lparr>template = tmpl,
       newInstance = inst,
       exclude = (case excl of None \<Rightarrow> [] | Some x \<Rightarrow> x),
       idrefs = (case refs of None \<Rightarrow> [] | Some x \<Rightarrow> x),
       mapping = m,
       reverse =
         fold (\<lambda>p r. set_prop r (js_toString env (snd p)) (JStr (fst p))) (for_in m)
           empty_object\<rparr>)"

definition getName :: "codec \<Rightarrow> string" where
  "getName c = ctor (template c)"

definition cloneTemplate :: "codec \<Rightarrow> jsobj" where
  "cloneTemplate c = newInstance c"

text \<open>
  A name is a value of the language: a string, \<open>null\<close> for an array element or a missing
  attribute, or whatever the lookup in \<open>mapping\<close> or \<open>reverse\<close> has found.
\<close>

definition getFieldName :: "jsenv \<Rightarrow> codec \<Rightarrow> jsval \<Rightarrow> jsval" where
  "getFieldName env c attributename =
     (if \<not> is_nullish attributename
      then (let mapped = get_prop env (reverse c) (js_toString env attributename)
            in if \<not> is_nullish mapped then mapped else attributename)
      else attributename)"

definition getAttributeName :: "jsenv \<Rightarrow> codec \<Rightarrow> jsval \<Rightarrow> jsval" where
  "getAttributeName env c fieldname =
     (if \<not> is_nullish fieldname
      then (let mapped = get_prop env (mapping c) (js_toString env fieldname)
            in if \<not> is_nullish mapped then mapped else fieldname)
      else fieldname)"

definition isExcluded :: "jsenv \<Rightarrow> codec \<Rightarrow> jsval \<Rightarrow> bool" where
  \<comment> \<open>\<open>attr == mxObjectIdentity.FIELD_NAME || this.exclude.indexOf(attr) >= 0\<close>;
      \<open>indexOf\<close> compares with \<open>===\<close>\<close>
  "isExcluded env c attr =
     (loose_eq env attr (JStr (FIELD_NAME env)) \<or> attr \<in> set (map JStr (exclude c)))"

definition isReference :: "codec \<Rightarrow> jsval \<Rightarrow> bool" where
  \<comment> \<open>\<open>this.idrefs.indexOf(attr) >= 0\<close>; \<open>attr\<close> is \<open>null\<close> for an array element\<close>
  "isReference c attr = (attr \<in> set (map JStr (idrefs c)))"

section \<open>Encoding\<close>

text \<open>
  The encoder \<open>enc\<close> is an \<open>mxCodec\<close>, a class outside the sources: what it answers for
  \<open>getId\<close> and \<open>encode\<close>, and its flag \<open>encodeDefaults\<close>, are parameters.
\<close>

record encoder =
  enc_getId :: "jsval \<Rightarrow> string option"
  enc_encode :: "jsval \<Rightarrow> xnode option"
  encodeDefaults :: bool

text \<open>The state of an encoding: the node under construction and the lines of \<open>mxLog.warn\<close>.\<close>

type_synonym estate = "xnode \<times> string list"

definition enc_setAttribute :: "jsenv \<Rightarrow> xnode \<Rightarrow> jsval \<Rightarrow> jsval \<Rightarrow> exn + xnode" where
  \<comment> \<open>Modelled from the spec: \<open>mxCodec.setAttribute\<close> is not in the sources.  The spec has
      primitives serialized as attributes and a field without a value left out: the
      attribute is set to the string of the value when name and value are not \<open>null\<close>.\<close>
  "enc_setAttribute env node attr v =
     (if \<not> is_nullish attr \<and> \<not> is_nullish v
      then dom_setAttribute env node (js_toString env attr) (js_toString env v)
      else Inr node)"

definition isBooleanAttribute :: "jsenv \<Rightarrow> heap \<Rightarrow> jsval \<Rightarrow> exn + bool" where
  "isBooleanAttribute env h v =
     (case has_length env h v of
        Inl e \<Rightarrow> Inl e
      | Inr l \<Rightarrow> Inr (\<not> l \<and> (loose_eq env v (JBool True) \<or> loose_eq env v (JBool False))))"

definition convertAttributeToXml :: "jsenv \<Rightarrow> heap \<Rightarrow> jsval \<Rightarrow> exn + jsval" where
  "convertAttributeToXml env h v =
     (case isBooleanAttribute env h v of
        Inl e \<Rightarrow> Inl e
      | Inr b \<Rightarrow>
          Inr (if b then (if loose_eq env v (JBool True) then JStr ''1'' else JStr ''0'')
               else v))"

definition writePrimitiveAttribute ::
  "jsenv \<Rightarrow> heap \<Rightarrow> jsval \<Rightarrow> jsval \<Rightarrow> xnode \<Rightarrow> exn + xnode" where
  "writePrimitiveAttribute env h name v node =
     (case convertAttributeToXml env h v of
        Inl e \<Rightarrow> Inl e
      | Inr v' \<Rightarrow>
          (if is_nullish name
           then (case createElement env ''add'' of
                   Inl e \<Rightarrow> Inl e
                 | Inr child \<Rightarrow>
                     (case (if typeof h v' = TFunction
                            then Inr (appendChild child (TextNode (js_toString env v')))
                            else enc_setAttribute env child (JStr ''value'') v') of
                        Inl e \<Rightarrow> Inl e
                      | Inr child' \<Rightarrow> Inr (appendChild node (ElementNode child'))))
           else if typeof h v' \<noteq> TFunction then enc_setAttribute env node name v'
           else Inr node))"

definition writeComplexAttribute ::
  "jsenv \<Rightarrow> encoder \<Rightarrow> codec \<Rightarrow> jsval \<Rightarrow> jsval \<Rightarrow> estate \<Rightarrow> exn + estate" where
  "writeComplexAttribute env enc c name v st =
     (case enc_encode enc v of
        Some child \<Rightarrow>
          (case (if \<not> is_nullish name
                 then dom_setAttribute env child ''as'' (js_toString env name)
                 else Inr child) of
             Inl e \<Rightarrow> Inl e
           | Inr child' \<Rightarrow> Inr (appendChild (fst st) (ElementNode child'), snd st))
      | None \<Rightarrow>
          Inr (fst st,
               snd st @ [''mxObjectCodec.encode: No node for '' @ getName c @ ''.'' @
                         js_toString env name @ '': '' @ js_toString env v]))"

definition writeAttribute ::
  "jsenv \<Rightarrow> heap \<Rightarrow> encoder \<Rightarrow> codec \<Rightarrow> jsval \<Rightarrow> jsval \<Rightarrow> estate \<Rightarrow> exn + estate" where
  "writeAttribute env h enc c name v st =
     (if typeof h v \<noteq> TObject
      then (case writePrimitiveAttribute env h name v (fst st) of
              Inl e \<Rightarrow> Inl e
            | Inr node \<Rightarrow> Inr (node, snd st))
      else writeComplexAttribute env enc c name v st)"

definition encodeValue ::
  "jsenv \<Rightarrow> heap \<Rightarrow> encoder \<Rightarrow> codec \<Rightarrow> jsval \<Rightarrow> jsval \<Rightarrow> estate \<Rightarrow> exn + estate" where
  "encodeValue env h enc c name v st =
     (if \<not> is_nullish v then
        (let r =
           (if isReference c name
            then (case enc_getId enc v of None \<Rightarrow> None | Some tmp \<Rightarrow> Some (JStr tmp))
            else Some v)
         in case r of
              None \<Rightarrow>
                Inr (fst st,
                     snd st @ [''mxObjectCodec.encode: No ID for '' @ getName c @ ''.'' @
                               js_toString env name @ ''='' @ js_toString env v])
            | Some v' \<Rightarrow>
                (let defaultValue = get_prop env (template c) (js_toString env name)
                 in if is_nullish name \<or> encodeDefaults enc \<or> \<not> loose_eq env defaultValue v'
                    then writeAttribute env h enc c (getAttributeName env c name) v' st
                    else Inr st))
      else Inr st)"

fun encodeFields ::
  "jsenv \<Rightarrow> heap \<Rightarrow> encoder \<Rightarrow> codec \<Rightarrow> (string \<times> jsval) list \<Rightarrow> estate \<Rightarrow> exn + estate" where
  \<comment> \<open>the loop of \<open>encodeObject\<close> over the enumerated fields\<close>
  "encodeFields env h enc c [] st = Inr st"
| "encodeFields env h enc c (f # fs) st =
     (if \<not> is_nullish (snd f) \<and> \<not> isExcluded env c (JStr (fst f))
      then (case encodeValue env h enc c
                   (if isInteger env (fst f) then Null else JStr (fst f)) (snd f) st of
              Inl e \<Rightarrow> Inl e
            | Inr st' \<Rightarrow> encodeFields env h enc c fs st')
      else encodeFields env h enc c fs st)"

definition encodeObject ::
  "jsenv \<Rightarrow> heap \<Rightarrow> encoder \<Rightarrow> codec \<Rightarrow> nat \<Rightarrow> estate \<Rightarrow> exn + estate" where
  "encodeObject env h enc c obj st =
     (case enc_setAttribute env (fst st) (JStr ''id'')
             (case enc_getId enc (JObj obj) of None \<Rightarrow> Null | Some i \<Rightarrow> JStr i) of
        Inl e \<Rightarrow> Inl e
      | Inr node \<Rightarrow> encodeFields env h enc c (for_in (h obj)) (node, snd st))"

definition beforeEncode :: "nat \<Rightarrow> xnode \<Rightarrow> nat" where
  "beforeEncode obj node = obj"

definition afterEncode :: "nat \<Rightarrow> xnode \<Rightarrow> xnode" where
  "afterEncode obj node = node"

definition encode ::
  "jsenv \<Rightarrow> heap \<Rightarrow> encoder \<Rightarrow> codec \<Rightarrow> nat \<Rightarrow> string list \<Rightarrow> exn + estate" where
  \<comment> \<open>\<open>encode(enc, obj)\<close>; the list is the log so far\<close>
  "encode env h enc c obj warnings =
     (case createElement env (getName c) of
        Inl e \<Rightarrow> Inl e
      | Inr node \<Rightarrow>
          (let obj' = beforeEncode obj node
           in case encodeObject env h enc c obj' (node, warnings) of
                Inl e \<Rightarrow> Inl e
              | Inr st \<Rightarrow> Inr (afterEncode obj' (fst st), snd st)))"

section \<open>Computations with state and exceptions\<close>

text \<open>
  A method that changes objects and may throw is a function from the state to a result, an
  exception or a value, and the state it leaves.  An exception leaves the state as it was
  when it was thrown.
\<close>

type_synonym ('a, 's) comp = "'s \<Rightarrow> (exn + 'a) \<times> 's"

definition mreturn :: "'a \<Rightarrow> ('a, 's) comp" where
  "mreturn x = (\<lambda>s. (Inr x, s))"

definition mthrow :: "exn \<Rightarrow> ('a, 's) comp" where
  "mthrow e = (\<lambda>s. (Inl e, s))"

definition mbind :: "('a, 's) comp \<Rightarrow> ('a \<Rightarrow> ('b, 's) comp) \<Rightarrow> ('b, 's) comp" where
  "mbind m f = (\<lambda>s. case m s of (Inl e, s1) \<Rightarrow> (Inl e, s1) | (Inr x, s1) \<Rightarrow> f x s1)"

definition mcatch :: "('a, 's) comp \<Rightarrow> (exn \<Rightarrow> ('a, 's) comp) \<Rightarrow> ('a, 's) comp" where
  \<comment> \<open>\<open>try { m } catch (e) { handler }\<close>\<close>
  "mcatch m handler =
     (\<lambda>s. case m s of (Inl e, s1) \<Rightarrow> handler e s1 | (Inr x, s1) \<Rightarrow> (Inr x, s1))"

definition mfinally :: "('a, 's) comp \<Rightarrow> (unit, 's) comp \<Rightarrow> ('a, 's) comp" where
  \<comment> \<open>\<open>try { m } finally { fin }\<close>: \<open>fin\<close> runs in every case; what \<open>m\<close> returned or
      threw stands unless \<open>fin\<close> throws\<close>
  "mfinally m fin =
     (\<lambda>s. case m s of
             (r, s1) \<Rightarrow> (case fin s1 of (Inl e, s2) \<Rightarrow> (Inl e, s2) | (Inr u, s2) \<Rightarrow> (r, s2)))"

section \<open>Decoding\<close>

text \<open>
  The state a decoding works on: the heap of objects with the next free address, the
  decoder's table \<open>dec.objects\<close> from ids to decoded objects, and the lines of
  \<open>mxLog.warn\<close>.
\<close>

record dstate =
  store :: heap
  nextAddr :: nat
  objects :: "string \<Rightarrow> jsval option"
  warnings :: "string list"

type_synonym 'a dm = "('a, dstate) comp"

definition dlift :: "(heap \<Rightarrow> exn + 'a) \<Rightarrow> 'a dm" where
  \<comment> \<open>a read of the heap that may throw\<close>
  "dlift f = (\<lambda>s. (f (store s), s))"

definition warn :: "string \<Rightarrow> unit dm" where
  \<comment> \<open>\<open>mxLog.warn\<close>\<close>
  "warn m = (\<lambda>s. (Inr (), s\<lparr>warnings := warnings s @ [m]\<rparr>))"

text \<open>
  The decoder \<open>dec\<close> is an \<open>mxCodec\<close>, outside the sources: \<open>getObject\<close> and \<open>decode\<close>
  are parameters, and so are \<open>eval\<close> of the language, the static switch \<open>allowEval\<close>
  and the loading of an included document.
\<close>

record decoder =
  dec_getObject :: "jsval \<Rightarrow> jsval dm"
  dec_decode :: "xnode \<Rightarrow> jsval \<Rightarrow> jsval dm"
  allowEval :: bool
  js_eval :: "string \<Rightarrow> jsval dm"
  load_xml :: "string \<Rightarrow> (xnode option) dm"

definition putObject :: "string \<Rightarrow> jsval \<Rightarrow> unit dm" where
  \<comment> \<open>Modelled from the spec: \<open>mxCodec.putObject\<close> is not in the sources.  The spec's
      decode-time object cache is the table \<open>dec.objects\<close>, which \<open>decode\<close> reads by id:
      the object is stored under the id.\<close>
  "putObject ident obj = (\<lambda>s. (Inr (), s\<lparr>objects := (objects s)(ident \<mapsto> obj)\<rparr>))"

subsection \<open>Access to the target object\<close>

definition constructor_name :: "heap \<Rightarrow> jsval \<Rightarrow> exn + string" where
  \<comment> \<open>\<open>obj.constructor\<close>, by name; \<open>null\<close> and \<open>undefined\<close> have no properties\<close>
  "constructor_name h v =
     (case v of
        Undefined \<Rightarrow> Inl (TypeError ''Cannot read properties of undefined'')
      | Null \<Rightarrow> Inl (TypeError ''Cannot read properties of null'')
      | JBool b \<Rightarrow> Inr ''Boolean''
      | JNum n \<Rightarrow> Inr ''Number''
      | JStr s \<Rightarrow> Inr ''String''
      | JObj a \<Rightarrow> Inr (ctor (h a)))"

definition read_prop :: "jsenv \<Rightarrow> jsval \<Rightarrow> string \<Rightarrow> heap \<Rightarrow> exn + jsval" where
  \<comment> \<open>\<open>obj[name]\<close> on any value; the properties a primitive inherits are not modelled\<close>
  "read_prop env v name h =
     (case v of
        Undefined \<Rightarrow> Inl (TypeError ''Cannot read properties of undefined'')
      | Null \<Rightarrow> Inl (TypeError ''Cannot read properties of null'')
      | JObj a \<Rightarrow> Inr (get_prop env (h a) name)
      | _ \<Rightarrow> Inr Undefined)"

definition write_prop :: "jsval \<Rightarrow> string \<Rightarrow> jsval \<Rightarrow> unit dm" where
  \<comment> \<open>\<open>obj[name] = value\<close>; the module is strict code, where a primitive target throws\<close>
  "write_prop v name x =
     (\<lambda>s. case v of
             JObj a \<Rightarrow> (Inr (), s\<lparr>store := (store s)(a := set_prop (store s a) name x)\<rparr>)
           | Undefined \<Rightarrow> (Inl (TypeError ''Cannot set properties of undefined''), s)
           | Null \<Rightarrow> (Inl (TypeError ''Cannot set properties of null''), s)
           | _ \<Rightarrow> (Inl (TypeError ''Cannot create property''), s))"

definition push :: "jsval \<Rightarrow> jsval \<Rightarrow> unit dm" where
  \<comment> \<open>\<open>obj.push(value)\<close>: only arrays have the method\<close>
  "push v x =
     (\<lambda>s. case v of
             JObj a \<Rightarrow>
               (if kind (store s a) = ArrayObject
                then write_prop v (string_of_nat (array_length (store s a))) x s
                else (Inl (TypeError ''obj.push is not a function''), s))
           | Undefined \<Rightarrow> (Inl (TypeError ''Cannot read properties of undefined''), s)
           | Null \<Rightarrow> (Inl (TypeError ''Cannot read properties of null''), s)
           | _ \<Rightarrow> (Inl (TypeError ''obj.push is not a function''), s))"

fun strict_eq :: "jsval \<Rightarrow> jsval \<Rightarrow> bool" where
  \<comment> \<open>\<open>a === b\<close>\<close>
  "strict_eq (JNum x) (JNum y) = num_eq x y"
| "strict_eq a b = (a = b)"

subsection \<open>Attributes\<close>

definition isNaN :: "jsnum \<Rightarrow> bool" where
  "isNaN n = (n = NaN)"

definition isFinite :: "jsnum \<Rightarrow> bool" where
  "isFinite n = (case n of Fin r \<Rightarrow> True | _ \<Rightarrow> False)"

definition isNumericAttribute ::
  "jsenv \<Rightarrow> heap \<Rightarrow> string \<times> string \<Rightarrow> jsval \<Rightarrow> exn + bool" where
  "isNumericAttribute env h attr obj =
     (case constructor_name h obj of
        Inl e \<Rightarrow> Inl e
      | Inr cn \<Rightarrow>
          Inr ((cn = ''Geometry'' \<and>
                (fst attr = ''x'' \<or> fst attr = ''y'' \<or> fst attr = ''width'' \<or>
                 fst attr = ''height'')) \<or>
               (cn = ''Point'' \<and> (fst attr = ''x'' \<or> fst attr = ''y'')) \<or>
               isNumeric env (snd attr)))"

definition convertAttributeFromXml ::
  "jsenv \<Rightarrow> heap \<Rightarrow> string \<times> string \<Rightarrow> jsval \<Rightarrow> exn + jsval" where
  "convertAttributeFromXml env h attr obj =
     (case isNumericAttribute env h attr obj of
        Inl e \<Rightarrow> Inl e
      | Inr numeric \<Rightarrow>
          Inr (if numeric
               then (let v = parseFloat env (snd attr)
                     in JNum (if isNaN v \<or> \<not> isFinite v then Fin 0 else v))
               else JStr (snd attr)))"

definition isIgnoredAttribute :: "string \<times> string \<Rightarrow> bool" where
  "isIgnoredAttribute attr = (fst attr = ''as'' \<or> fst attr = ''id'')"

definition decodeAttribute ::
  "jsenv \<Rightarrow> decoder \<Rightarrow> codec \<Rightarrow> string \<times> string \<Rightarrow> jsval \<Rightarrow> unit dm" where
  "decodeAttribute env dec c attr obj =
     (if \<not> isIgnoredAttribute attr then
        (let name = fst attr in
         mbind (dlift (\<lambda>h. convertAttributeFromXml env h attr obj)) (\<lambda>v.
         let fieldname = getFieldName env c (JStr name);
             assign = (\<lambda>x. if \<not> isExcluded env c (JStr name) then write_prop obj name x
                           else mreturn ())
         in if isReference c fieldname
            then mbind (dec_getObject dec v) (\<lambda>tmp.
                   if is_nullish tmp
                   then warn (''mxObjectCodec.decode: No object for '' @ getName c @ ''.'' @
                              name @ ''='' @ js_toString env v)
                   else assign tmp)
            else assign v))
      else mreturn ())"

fun decodeAttributeList ::
  "jsenv \<Rightarrow> decoder \<Rightarrow> codec \<Rightarrow> (string \<times> string) list \<Rightarrow> jsval \<Rightarrow> unit dm" where
  \<comment> \<open>the loop of \<open>decodeAttributes\<close>\<close>
  "decodeAttributeList env dec c [] obj = mreturn ()"
| "decodeAttributeList env dec c (a # as) obj =
     mbind (decodeAttribute env dec c a obj) (\<lambda>_. decodeAttributeList env dec c as obj)"

definition decodeAttributes :: "jsenv \<Rightarrow> decoder \<Rightarrow> codec \<Rightarrow> xnode \<Rightarrow> jsval \<Rightarrow> unit dm" where
  "decodeAttributes env dec c node obj =
     decodeAttributeList env dec c (attributes node) obj"

subsection \<open>Child nodes\<close>

definition getFieldTemplate :: "jsenv \<Rightarrow> jsval \<Rightarrow> jsval \<Rightarrow> heap \<Rightarrow> exn + jsval" where
  "getFieldTemplate env obj fieldname h =
     (case read_prop env obj (js_toString env fieldname) h of
        Inl e \<Rightarrow> Inl e
      | Inr t \<Rightarrow>
          Inr (if (case t of
                     JObj a \<Rightarrow> kind (h a) = ArrayObject \<and> array_length (h a) > 0
                   | _ \<Rightarrow> False)
               then Null else t))"

definition addObjectValue :: "jsenv \<Rightarrow> jsval \<Rightarrow> jsval \<Rightarrow> jsval \<Rightarrow> jsval \<Rightarrow> unit dm" where
  "addObjectValue env obj fieldname v tmpl =
     (if \<not> is_nullish v \<and> \<not> strict_eq v tmpl
      then (\<lambda>s. if \<not> is_nullish fieldname \<and> length_positive env (store s) fieldname
                then write_prop obj (js_toString env fieldname) v s
                else push obj v s)
      else mreturn ())"

definition decodeChild :: "jsenv \<Rightarrow> decoder \<Rightarrow> codec \<Rightarrow> xnode \<Rightarrow> jsval \<Rightarrow> unit dm" where
  "decodeChild env dec c child obj =
     (let fieldname = getFieldName env c (js_of_option (getAttribute child ''as'')) in
      if is_nullish fieldname \<or> \<not> isExcluded env c fieldname
      then mbind (dlift (getFieldTemplate env obj fieldname)) (\<lambda>tmpl.
           mbind (if nodeName child = ''add''
                  then (case getAttribute child ''value'' of
                          Some v \<Rightarrow> mreturn (JStr v)
                        | None \<Rightarrow>
                            (if allowEval dec then js_eval dec (getTextContent child)
                             else mreturn Null))
                  else dec_decode dec child tmpl) (\<lambda>v.
           mcatch (addObjectValue env obj fieldname v tmpl)
             (\<lambda>e. mthrow (Error (message e @ '' for '' @ nodeName child)))))
      else mreturn ())"

definition processInclude :: "decoder \<Rightarrow> xnode \<Rightarrow> jsval \<Rightarrow> bool dm" where
  \<comment> \<open>whatever loading or decoding the included document throws is ignored\<close>
  "processInclude dec node into =
     (if nodeName node = ''include''
      then (case getAttribute node ''name'' of
              None \<Rightarrow> mreturn True
            | Some name \<Rightarrow>
                (\<lambda>s. case load_xml dec name s of
                        (Inl e, s1) \<Rightarrow> (Inr True, s1)
                      | (Inr None, s1) \<Rightarrow> (Inr True, s1)
                      | (Inr (Some xml), s1) \<Rightarrow> (Inr True, snd (dec_decode dec xml into s1))))
      else mreturn False)"

fun decodeChildList ::
  "jsenv \<Rightarrow> decoder \<Rightarrow> codec \<Rightarrow> xchild list \<Rightarrow> jsval \<Rightarrow> unit dm" where
  \<comment> \<open>the loop of \<open>decodeChildren\<close> along the siblings\<close>
  "decodeChildList env dec c [] obj = mreturn ()"
| "decodeChildList env dec c (ch # chs) obj =
     mbind (case ch of
              ElementNode child \<Rightarrow>
                mbind (processInclude dec child obj) (\<lambda>included.
                  if \<not> included then decodeChild env dec c child obj else mreturn ())
            | TextNode t \<Rightarrow> mreturn ())
       (\<lambda>_. decodeChildList env dec c chs obj)"

definition decodeChildren :: "jsenv \<Rightarrow> decoder \<Rightarrow> codec \<Rightarrow> xnode \<Rightarrow> jsval \<Rightarrow> unit dm" where
  "decodeChildren env dec c node obj = decodeChildList env dec c (childNodes node) obj"

definition decodeNode :: "jsenv \<Rightarrow> decoder \<Rightarrow> codec \<Rightarrow> xnode \<Rightarrow> jsval \<Rightarrow> unit dm" where
  "decodeNode env dec c node obj =
     mbind (decodeAttributes env dec c node obj) (\<lambda>_. decodeChildren env dec c node obj)"

definition beforeDecode :: "xnode \<Rightarrow> jsval \<Rightarrow> xnode" where
  "beforeDecode node obj = node"

definition afterDecode :: "xnode \<Rightarrow> jsval \<Rightarrow> jsval" where
  "afterDecode node obj = obj"

definition alloc :: "jsobj \<Rightarrow> jsval dm" where
  \<comment> \<open>a new object on the heap\<close>
  "alloc ob =
     (\<lambda>s. (Inr (JObj (nextAddr s)),
           s\<lparr>store := (store s)(nextAddr s := ob), nextAddr := Suc (nextAddr s)\<rparr>))"

definition decode :: "jsenv \<Rightarrow> decoder \<Rightarrow> codec \<Rightarrow> xnode \<Rightarrow> jsval \<Rightarrow> jsval dm" where
  \<comment> \<open>\<open>decode(dec, node, into)\<close>; \<open>dec.objects[id]\<close> with no id reads the key \<open>null\<close>\<close>
  "decode env dec c node into =
     (\<lambda>s.
        (let ident = getAttribute node ''id'';
             cached = (case objects s (opt_toString ident) of None \<Rightarrow> Undefined | Some x \<Rightarrow> x)
         in mbind
              (if is_nullish cached
               then mbind (if js_truthy into then mreturn into else alloc (cloneTemplate c))
                      (\<lambda>obj. mbind (case ident of
                                      Some i \<Rightarrow> putObject i obj
                                    | None \<Rightarrow> mreturn ())
                               (\<lambda>_. mreturn obj))
               else mreturn cached)
              (\<lambda>obj. mbind (decodeNode env dec c (beforeDecode node obj) obj)
                       (\<lambda>_. mreturn (afterDecode (beforeDecode node obj) obj)))) s)"

section \<open>An environment in decimal notation\<close>

text \<open>
  The theorems below hold for every environment.  To run the model on examples, this one
  reads and prints numbers in decimal notation: \<open>parseFloat\<close> takes the longest prefix
  that is a decimal literal, \<open>ToNumber\<close> wants the whole trimmed string to be one (the
  binary, octal and hexadecimal literals it also accepts are not recognised), a magnitude
  beyond the largest double becomes infinite, and a number prints as its integer part
  followed by at most twenty fraction digits.
\<close>

definition is_ws :: "char \<Rightarrow> bool" where
  "is_ws c = ((of_char c :: nat) \<in> {9, 10, 11, 12, 13, 32})"

definition is_digit :: "char \<Rightarrow> bool" where
  "is_digit c = (digit_val c \<noteq> None)"

definition digits_value :: "string \<Rightarrow> nat" where
  "digits_value ds =
     foldl (\<lambda>a c. 10 * a + (case digit_val c of None \<Rightarrow> 0 | Some d \<Rightarrow> d)) 0 ds"

definition scale10 :: "real \<Rightarrow> int \<Rightarrow> real" where
  "scale10 m e = (if 0 \<le> e then m * 10 ^ nat e else m / 10 ^ nat (- e))"

definition to_double :: "real \<Rightarrow> jsnum" where
  "to_double r =
     (if 2 ^ 1024 - 2 ^ 970 \<le> r then PosInf
      else if r \<le> - (2 ^ 1024 - 2 ^ 970) then NegInf
      else Fin r)"

definition split_sign :: "string \<Rightarrow> bool \<times> string" where
  "split_sign s =
     (case s of
        [] \<Rightarrow> (False, [])
      | c # r \<Rightarrow>
          (if c = CHR ''-'' then (True, r) else if c = CHR ''+'' then (False, r)
           else (False, s)))"

definition parse_exponent :: "string \<Rightarrow> int \<times> string" where
  "parse_exponent s =
     (case s of
        [] \<Rightarrow> (0, s)
      | c # r \<Rightarrow>
          (if c = CHR ''e'' \<or> c = CHR ''E''
           then (let sg = split_sign r; ds = takeWhile is_digit (snd sg)
                 in if ds = [] then (0, s)
                    else ((if fst sg then - int (digits_value ds) else int (digits_value ds)),
                          dropWhile is_digit (snd sg)))
           else (0, s)))"

definition parse_decimal :: "string \<Rightarrow> (jsnum \<times> string) option" where
  \<comment> \<open>the longest prefix that is a signed decimal literal, and what follows it\<close>
  "parse_decimal s =
     (let sg = split_sign s; s1 = snd sg in
      if take 8 s1 = ''Infinity''
      then Some (if fst sg then NegInf else PosInf, drop 8 s1)
      else
        (let ip = takeWhile is_digit s1;
             r1 = dropWhile is_digit s1;
             dot = (r1 \<noteq> [] \<and> hd r1 = CHR ''.'');
             fp = (if dot then takeWhile is_digit (tl r1) else []);
             r2 = (if dot then dropWhile is_digit (tl r1) else r1)
         in if ip = [] \<and> fp = [] then None
            else
              (let ex = parse_exponent r2;
                   m = scale10 (real (digits_value (ip @ fp))) (fst ex - int (length fp))
               in Some (to_double (if fst sg then - m else m), snd ex))))"

definition decimal_parseFloat :: "string \<Rightarrow> jsnum" where
  "decimal_parseFloat s =
     (case parse_decimal (dropWhile is_ws s) of None \<Rightarrow> NaN | Some r \<Rightarrow> fst r)"

definition decimal_toNumber :: "string \<Rightarrow> jsnum" where
  "decimal_toNumber s =
     (let t = rev (dropWhile is_ws (rev (dropWhile is_ws s)))
      in if t = [] then Fin 0
         else (case parse_decimal t of
                 None \<Rightarrow> NaN
               | Some r \<Rightarrow> (if snd r = [] then fst r else NaN)))"

fun fraction_digits :: "nat \<Rightarrow> real \<Rightarrow> string" where
  "fraction_digits 0 x = []"
| "fraction_digits (Suc k) x =
     (if x = 0 then []
      else (let d = nat \<lfloor>10 * x\<rfloor> in digit_char d # fraction_digits k (10 * x - real d)))"

definition decimal_toString :: "jsnum \<Rightarrow> string" where
  "decimal_toString n =
     (case n of
        NaN \<Rightarrow> ''NaN''
      | PosInf \<Rightarrow> ''Infinity''
      | NegInf \<Rightarrow> ''-Infinity''
      | Fin r \<Rightarrow>
          (let a = \<bar>r\<bar>; ip = nat \<lfloor>a\<rfloor>; fr = fraction_digits 20 (a - real ip)
           in (if r < 0 then ''-'' else []) @ string_of_nat ip @
              (if fr = [] then [] else CHR ''.'' # fr)))"

definition decimal_isNumeric :: "string \<Rightarrow> bool" where
  \<comment> \<open>Modelled from the spec: \<open>Utils.isNumeric\<close> is not in the sources.  The value string
      parses as a number: \<open>parseFloat\<close> finds one and the whole string denotes a finite
      one.\<close>
  "decimal_isNumeric s = (\<not> isNaN (decimal_parseFloat s) \<and> isFinite (decimal_toNumber s))"

definition decimal_isInteger :: "string \<Rightarrow> bool" where
  \<comment> \<open>Modelled from the spec: \<open>Utils.isInteger\<close> is not in the sources.  The field name
      is numeric-looking, the way a position in an array is written: an integer in
      decimal digits, as the language prints it.\<close>
  "decimal_isInteger s =
     (case s of
        [] \<Rightarrow> False
      | c # r \<Rightarrow>
          (if c = CHR ''-''
           then r \<noteq> [] \<and> list_all is_digit r \<and> hd r \<noteq> CHR ''0''
           else list_all is_digit s \<and> (r = [] \<or> c \<noteq> CHR ''0'')))"

definition object_members :: "string list" where
  \<comment> \<open>the members every object inherits from \<open>Object.prototype\<close>\<close>
  "object_members =
     [''constructor'', ''hasOwnProperty'', ''isPrototypeOf'', ''propertyIsEnumerable'',
      ''toLocaleString'', ''toString'', ''valueOf'', ''__proto__'', ''__defineGetter__'',
      ''__defineSetter__'', ''__lookupGetter__'', ''__lookupSetter__'']"

definition array_members :: "string list" where
  \<comment> \<open>the members an array inherits from \<open>Array.prototype\<close>\<close>
  "array_members =
     [''at'', ''concat'', ''copyWithin'', ''entries'', ''every'', ''fill'', ''filter'',
      ''find'', ''findIndex'', ''findLast'', ''findLastIndex'', ''flat'', ''flatMap'',
      ''forEach'', ''includes'', ''indexOf'', ''join'', ''keys'', ''lastIndexOf'', ''map'',
      ''pop'', ''push'', ''reduce'', ''reduceRight'', ''reverse'', ''shift'', ''slice'',
      ''some'', ''sort'', ''splice'', ''toReversed'', ''toSorted'', ''toSpliced'',
      ''unshift'', ''values'', ''with'']"

definition builtin :: nat where
  \<comment> \<open>the address that stands for the inherited members, which the examples do not read\<close>
  "builtin = 1000000"

definition decimal_inherited :: "string \<Rightarrow> string \<Rightarrow> jsval option" where
  \<comment> \<open>the classes of the examples declare no methods\<close>
  "decimal_inherited cn key =
     (if key \<in> set object_members \<or> (cn = ''Array'' \<and> key \<in> set array_members)
      then Some (JObj builtin) else None)"

definition is_name_start :: "char \<Rightarrow> bool" where
  \<comment> \<open>\<open>NameStartChar\<close> of XML, among the characters of one byte\<close>
  "is_name_start ch =
     (let n = (of_char ch :: nat)
      in n = 58 \<or> (65 \<le> n \<and> n \<le> 90) \<or> n = 95 \<or> (97 \<le> n \<and> n \<le> 122) \<or>
         (192 \<le> n \<and> n \<le> 214) \<or> (216 \<le> n \<and> n \<le> 246) \<or> 248 \<le> n)"

definition is_name_char :: "char \<Rightarrow> bool" where
  \<comment> \<open>\<open>NameChar\<close> of XML\<close>
  "is_name_char ch =
     (let n = (of_char ch :: nat)
      in is_name_start ch \<or> n = 45 \<or> n = 46 \<or> (48 \<le> n \<and> n \<le> 57) \<or> n = 183)"

definition is_xml_name :: "string \<Rightarrow> bool" where
  \<comment> \<open>the production \<open>Name\<close> of XML, which a document checks names against\<close>
  "is_xml_name s = (s \<noteq> [] \<and> is_name_start (hd s) \<and> list_all is_name_char (tl s))"

definition decimal_env :: jsenv where
  \<comment> \<open>an object prints as \<open>[object Object]\<close>; the field of object identity is
      \<open>mxObjectId\<close>\<close>
  "decimal_env =
     \<lparr>parseFloat = decimal_parseFloat,
      stringToNumber = decimal_toNumber,
      numberToString = decimal_toString,
      objToPrimitive = (\<lambda>a. JStr ''[object Object]''),
      objToString = (\<lambda>a. ''[object Object]''),
      isNumeric = decimal_isNumeric,
      isInteger = decimal_isInteger,
      FIELD_NAME = ''mxObjectId'',
      inherited = decimal_inherited,
      isXmlName = is_xml_name\<rparr>"

section \<open>The edge handler: state\<close>

text \<open>
  \<open>class EdgeHandler\<close> works on objects of classes outside the sources: the graph, its
  view and model, cells, cell states, shapes, the marker and the constraint handler.  The
  model keeps of them what the handler reads and writes: the geometry of each cell, the
  points of the cell state, which shapes exist, and the sequence of calls made on the
  graph and its model.  Coordinates are real numbers; the scale of the view is not zero.
\<close>

record point =
  px :: real
  py :: real

text \<open>An array of points; an entry may be \<open>null\<close> or missing.\<close>

type_synonym jspoints = "point option list"

record geometry =
  gx :: real
  gy :: real
  relative :: bool
  offset :: "point option"
  gpoints :: "jspoints option"
  sourcePoint :: "point option"
  targetPoint :: "point option"

datatype mevent =
    BeginUpdate
  | EndUpdate
  | SetGeometry nat geometry
  | ModelAdd nat nat nat
  | SetTerminal nat "nat option" bool
  | ConnectCell nat "nat option" bool
  | CustomExecute nat
  | GraphCall string

record handler =
  index :: "int option"
  error :: "string option"
  label :: "point option"
  points :: "jspoints option"
  snapPoint :: "point option"
  isLabel :: bool
  isSource :: bool
  isTarget :: bool
  active :: bool
  abspoints :: jspoints
  bends :: "bool list"
  virtualBends :: "bool list option"
  customHandles :: "nat option"
  labelShape :: bool
  shape :: bool
  marker :: bool
  constraintHandler :: bool
  cloneEnabled :: bool
  startX :: real
  startY :: real
  cell :: nat
  absolutePoints :: jspoints
  absoluteOffset :: point
  geoms :: "nat \<Rightarrow> geometry option"
  nextCell :: nat
  trace :: "mevent list"

text \<open>
  What the graph answers, and which of the calls made on it throw, are parameters.
  \<open>beginUpdate\<close> and \<open>endUpdate\<close> themselves do not throw.
\<close>

record graph_env =
  throws :: "mevent \<Rightarrow> bool"
  isCellBendable :: "nat \<Rightarrow> bool"
  entityRelation :: "jspoints option \<Rightarrow> bool"
  cellParent :: "nat \<Rightarrow> nat"
  childCount :: "nat \<Rightarrow> nat"
  cellTerminal :: "nat \<Rightarrow> bool \<Rightarrow> nat option"
  cellsCloneable :: bool
  allowDanglingEdges :: bool
  constraintFocus :: "nat option"
  markerTerminal :: "nat option"
  viewScale :: real
  viewTranslate :: point
  parentOrigin :: "point option"
  panDx :: real
  panDy :: real
  getRelativePoint :: "real \<Rightarrow> real \<Rightarrow> point"
  getPoint :: "geometry \<Rightarrow> point"
  CUSTOM_HANDLE :: int
  VIRTUAL_HANDLE :: int

record mouse_event =
  me_x :: real
  me_y :: real
  ignoreTerminalEvent :: bool
  cloneEvent :: bool
  toggleEvent :: bool

type_synonym 'a hm = "('a, handler) comp"

definition call :: "graph_env \<Rightarrow> mevent \<Rightarrow> unit hm" where
  \<comment> \<open>a call on the graph, the view, the model or a shape: it is recorded, then it
      returns or throws\<close>
  "call g ev =
     (\<lambda>h. (if throws g ev then Inl (Error ''thrown by a collaborator'') else Inr (),
           h\<lparr>trace := trace h @ [ev]\<rparr>))"

definition beginUpdate :: "unit hm" where
  "beginUpdate = (\<lambda>h. (Inr (), h\<lparr>trace := trace h @ [BeginUpdate]\<rparr>))"

definition endUpdate :: "unit hm" where
  "endUpdate = (\<lambda>h. (Inr (), h\<lparr>trace := trace h @ [EndUpdate]\<rparr>))"

definition setGeometry :: "graph_env \<Rightarrow> nat \<Rightarrow> geometry \<Rightarrow> unit hm" where
  \<comment> \<open>\<open>model.setGeometry(cell, geo)\<close>: the cell has the geometry afterwards, unless the
      call throws\<close>
  "setGeometry g c geo =
     (\<lambda>h. if throws g (SetGeometry c geo)
          then (Inl (Error ''thrown by a collaborator''),
                h\<lparr>trace := trace h @ [SetGeometry c geo]\<rparr>)
          else (Inr (),
                h\<lparr>geoms := (geoms h)(c \<mapsto> geo), trace := trace h @ [SetGeometry c geo]\<rparr>))"

definition cloneCell :: "graph_env \<Rightarrow> nat \<Rightarrow> nat hm" where
  \<comment> \<open>\<open>graph.cloneCell(edge)\<close>: a new cell with a copy of the geometry\<close>
  "cloneCell g c =
     mbind (call g (GraphCall ''cloneCell''))
       (\<lambda>_ h. (Inr (nextCell h),
               h\<lparr>geoms := (geoms h)(nextCell h := geoms h c), nextCell := Suc (nextCell h)\<rparr>))"

subsection \<open>Arrays\<close>

definition js_nth :: "'a option list \<Rightarrow> int \<Rightarrow> 'a option" where
  \<comment> \<open>\<open>xs[i]\<close>: \<open>undefined\<close> outside the array\<close>
  "js_nth xs i = (if 0 \<le> i \<and> i < int (length xs) then xs ! nat i else None)"

definition js_set :: "'a option list \<Rightarrow> nat \<Rightarrow> 'a option \<Rightarrow> 'a option list" where
  \<comment> \<open>\<open>xs[i] = v\<close>: past the end, the array grows and the gap is empty\<close>
  "js_set xs i v =
     (if i < length xs then xs[i := v] else xs @ replicate (i - length xs) None @ [v])"

definition splice1 :: "'a list \<Rightarrow> int \<Rightarrow> 'a list" where
  \<comment> \<open>\<open>xs.splice(start, 1)\<close> for an integer \<open>start\<close>: a negative one counts from the
      end, one past the end removes nothing\<close>
  "splice1 xs start =
     (let n = int (length xs);
          k = (if start < 0 then max (n + start) 0 else min start n)
      in take (nat k) xs @ drop (Suc (nat k)) xs)"

subsection \<open>Bends and redrawing\<close>

definition isHandleVisible :: "graph_env \<Rightarrow> handler \<Rightarrow> int \<Rightarrow> bool" where
  "isHandleVisible g h i =
     (let edgeStyleIsEntityRelation =
            (case geoms h (cell h) of None \<Rightarrow> False | Some geo \<Rightarrow> entityRelation g (gpoints geo))
      in \<not> edgeStyleIsEntityRelation \<or> i = 0 \<or> i = int (length (abspoints h)) - 1)"

fun createBendsFrom :: "graph_env \<Rightarrow> nat list \<Rightarrow> handler \<Rightarrow> bool list \<Rightarrow> (exn + bool list) \<times> handler" where
  \<comment> \<open>the loop of \<open>createBends\<close>: a bend for each visible handle, and a point pushed on
      \<open>this.points\<close> for each inner one\<close>
  "createBendsFrom g [] h acc = (Inr acc, h)"
| "createBendsFrom g (i # is) h acc =
     (if isHandleVisible g h (int i)
      then (let terminal = (i = 0 \<or> int i = int (length (abspoints h)) - 1) in
            if terminal \<or> isCellBendable g (cell h)
            then (if terminal then createBendsFrom g is h (acc @ [True])
                  else (case points h of
                          None \<Rightarrow> (Inl (TypeError ''Cannot read properties of null''), h)
                        | Some ps \<Rightarrow>
                            createBendsFrom g is
                              (h\<lparr>points := Some (ps @ [Some \<lparr>px = 0, py = 0\<rparr>])\<rparr>)
                              (acc @ [True])))
            else createBendsFrom g is h acc)
      else createBendsFrom g is h acc)"

definition createBends :: "graph_env \<Rightarrow> (bool list) hm" where
  "createBends g = (\<lambda>h. createBendsFrom g [0 ..< length (abspoints h)] h [])"

definition createVirtualBends :: "graph_env \<Rightarrow> handler \<Rightarrow> bool list" where
  "createVirtualBends g h =
     (if isCellBendable g (cell h) then replicate (length (abspoints h) - 1) True else [])"

definition createCustomHandles :: "nat" where
  \<comment> \<open>an empty array\<close>
  "createCustomHandles = 0"

definition refresh :: "graph_env \<Rightarrow> unit hm" where
  "refresh g =
     (\<lambda>h0.
        (let h1 = h0\<lparr>abspoints := absolutePoints h0, points := Some []\<rparr> in
         mbind (createBends g) (\<lambda>bs h2.
           (let h3 = h2\<lparr>bends := bs\<rparr>;
                h4 = (case virtualBends h3 of
                        None \<Rightarrow> h3
                      | Some vb \<Rightarrow> h3\<lparr>virtualBends := Some (createVirtualBends g h3)\<rparr>);
                h5 = (case customHandles h4 of
                        None \<Rightarrow> h4
                      | Some n \<Rightarrow> h4\<lparr>customHandles := Some createCustomHandles\<rparr>)
            in (Inr (), h5))) h1))"

definition drawPreview :: "unit hm" where
  \<comment> \<open>writes to the shapes only, and ignores what is thrown meanwhile\<close>
  "drawPreview = mreturn ()"

definition redrawInnerBends :: "handler \<Rightarrow> handler" where
  \<comment> \<open>an inner bend whose point is gone is destroyed and its entry set to \<open>null\<close>\<close>
  "redrawInnerBends h =
     h\<lparr>bends :=
         fold (\<lambda>i bs. if bs ! i \<and> js_nth (abspoints h) (int i) = None then bs[i := False] else bs)
           [1 ..< length (bends h) - 1] (bends h)\<rparr>"

definition redrawHandles :: "unit hm" where
  "redrawHandles =
     (\<lambda>h0.
        if \<not> labelShape h0 then (Inl (TypeError ''Cannot read properties of null''), h0)
        else
          (let h1 = h0\<lparr>label := Some \<lparr>px = px (absoluteOffset h0), py = py (absoluteOffset h0)\<rparr>\<rparr>
           in mbind
                (\<lambda>h. if length (bends h) > 0
                      then (if js_nth (abspoints h) 0 = None \<or> \<not> bends h ! 0 \<or>
                               js_nth (abspoints h) (int (length (abspoints h)) - 1) = None \<or>
                               \<not> bends h ! (length (bends h) - 1)
                            then (Inl (TypeError ''Cannot read properties of null''), h)
                            else (Inr (), redrawInnerBends h))
                      else (Inr (), h))
                (\<lambda>_ h. case virtualBends h of
                         None \<Rightarrow> (Inr (), h)
                       | Some vb \<Rightarrow>
                           (if list_ex (\<lambda>i. vb ! i \<and> js_nth (abspoints h) (int i + 1) \<noteq> None)
                                 [0 ..< length vb] \<and>
                               js_nth (abspoints h) 0 = None
                            then (Inl (TypeError ''Cannot read properties of null''), h)
                            else (Inr (), h)))
                h1))"

definition redraw :: "bool \<Rightarrow> unit hm" where
  "redraw ignoreHandles =
     (\<lambda>h0.
        (let h1 = h0\<lparr>abspoints := absolutePoints h0\<rparr>;
             h2 =
               (case geoms h1 (cell h1) of
                  None \<Rightarrow> h1
                | Some geo \<Rightarrow>
                    (if length (bends h1) > 0
                     then (case gpoints geo of
                             None \<Rightarrow> h1
                           | Some pts \<Rightarrow>
                               h1\<lparr>points :=
                                    Some (fold (\<lambda>i ps.
                                                  if bends h1 ! i \<and>
                                                     js_nth (abspoints h1) (int i) \<noteq> None
                                                  then js_set ps (i - 1) (js_nth pts (int i - 1))
                                                  else ps)
                                            [1 ..< length (bends h1) - 1]
                                            (case points h1 of None \<Rightarrow> [] | Some ps \<Rightarrow> ps))\<rparr>)
                     else h1))
         in mbind drawPreview (\<lambda>_. if \<not> ignoreHandles then redrawHandles else mreturn ()) h2))"

definition reset :: "graph_env \<Rightarrow> unit hm" where
  "reset g =
     mbind (\<lambda>h. if active h then refresh g h else (Inr (), h)) (\<lambda>_.
     mbind (\<lambda>h. (Inr (),
                 h\<lparr>error := None, index := None, label := None, points := None,
                   snapPoint := None, isLabel := False, isSource := False,
                   isTarget := False, active := False\<rparr>)) (\<lambda>_.
     mbind (\<lambda>h. if marker h then call g (GraphCall ''marker.reset'') h else (Inr (), h)) (\<lambda>_.
     mbind (\<lambda>h. if constraintHandler h then call g (GraphCall ''constraintHandler.reset'') h
                else (Inr (), h)) (\<lambda>_.
     mbind (\<lambda>h. case customHandles h of
                  None \<Rightarrow> (Inr (), h)
                | Some n \<Rightarrow>
                    fold (\<lambda>i m. mbind m (\<lambda>_. call g (GraphCall ''customHandle.reset'')))
                      [0 ..< n] (mreturn ()) h) (\<lambda>_.
     redraw False)))))"

definition escapeHandler :: "graph_env \<Rightarrow> unit hm" where
  \<comment> \<open>the listener for \<open>InternalEvent.ESCAPE\<close> that the constructor installs\<close>
  "escapeHandler g =
     (\<lambda>h. (let dirty = (index h \<noteq> None)
           in mbind (reset g)
                (\<lambda>_. if dirty then call g (GraphCall ''cellRenderer.redraw'') else mreturn ()) h))"

section \<open>The edge handler: committing a gesture\<close>

definition js_round :: "real \<Rightarrow> real" where
  \<comment> \<open>\<open>Math.round\<close>\<close>
  "js_round x = of_int \<lfloor>x + 1 / 2\<rfloor>"

definition roundLength :: "real \<Rightarrow> real" where
  "roundLength len = js_round len"

definition moveLabel :: "graph_env \<Rightarrow> real \<Rightarrow> real \<Rightarrow> unit hm" where
  \<comment> \<open>\<open>moveLabel(this.state, x, y)\<close>\<close>
  "moveLabel g x y =
     (\<lambda>h. case geoms h (cell h) of
             None \<Rightarrow> (Inr (), h)
           | Some geometry \<Rightarrow>
               (let scale = viewScale g in
                if relative geometry
                then (let pt = getRelativePoint g x y;
                          geo1 = geometry\<lparr>gx := js_round (px pt * 10000) / 10000,
                                          gy := js_round (py pt),
                                          offset := Some \<lparr>px = 0, py = 0\<rparr>\<rparr>;
                          pt2 = getPoint g geo1;
                          geo2 = geo1\<lparr>offset := Some \<lparr>px = js_round ((x - px pt2) / scale),
                                                      py = js_round ((y - py pt2) / scale)\<rparr>\<rparr>
                      in setGeometry g (cell h) geo2 h)
                else (case (js_nth (absolutePoints h) 0,
                            js_nth (absolutePoints h) (int (length (absolutePoints h)) - 1)) of
                        (Some p0, Some pe) \<Rightarrow>
                          (let cx = px p0 + (px pe - px p0) / 2;
                               cy = py p0 + (py pe - py p0) / 2;
                               geo1 = geometry\<lparr>offset := Some \<lparr>px = js_round ((x - cx) / scale),
                                                              py = js_round ((y - cy) / scale)\<rparr>,
                                               gx := 0, gy := 0\<rparr>
                           in setGeometry g (cell h) geo1 h)
                      | _ \<Rightarrow> setGeometry g (cell h) geometry h)))"

definition connect :: "graph_env \<Rightarrow> nat \<Rightarrow> nat \<Rightarrow> bool \<Rightarrow> nat hm" where
  "connect g edge terminal src =
     mbind beginUpdate (\<lambda>_.
     mbind (mfinally (call g (ConnectCell edge (Some terminal) src)) endUpdate) (\<lambda>_.
     mreturn edge))"

definition setTerminalPoint :: "geometry \<Rightarrow> point \<Rightarrow> bool \<Rightarrow> geometry" where
  \<comment> \<open>\<open>geo.setTerminalPoint(point, isSource)\<close>\<close>
  "setTerminalPoint geo pt src =
     (if src then geo\<lparr>sourcePoint := Some pt\<rparr> else geo\<lparr>targetPoint := Some pt\<rparr>)"

definition changeTerminalPoint :: "graph_env \<Rightarrow> nat \<Rightarrow> point \<Rightarrow> bool \<Rightarrow> bool \<Rightarrow> nat hm" where
  "changeTerminalPoint g edge pt src clone =
     mbind beginUpdate (\<lambda>_.
     mfinally
       (mbind (if clone
               then mbind (cloneCell g edge) (\<lambda>e2.
                    mbind (call g (ModelAdd (cellParent g edge) e2
                                     (childCount g (cellParent g edge)))) (\<lambda>_.
                    mbind (call g (SetTerminal e2 (cellTerminal g edge (\<not> src)) (\<not> src))) (\<lambda>_.
                    mreturn e2)))
               else mreturn edge) (\<lambda>e h.
          case geoms h e of
            None \<Rightarrow> (Inr e, h)
          | Some geo \<Rightarrow>
              mbind (setGeometry g e (setTerminalPoint geo pt src)) (\<lambda>_.
              mbind (call g (ConnectCell e None src)) (\<lambda>_.
              mreturn e)) h))
       endUpdate)"

definition changePoints :: "graph_env \<Rightarrow> nat \<Rightarrow> jspoints option \<Rightarrow> bool \<Rightarrow> nat hm" where
  "changePoints g edge pts clone =
     mbind beginUpdate (\<lambda>_.
     mfinally
       (mbind (if clone
               then mbind (cloneCell g edge) (\<lambda>e2.
                    mbind (call g (ModelAdd (cellParent g edge) e2
                                     (childCount g (cellParent g edge)))) (\<lambda>_.
                    mbind (call g (SetTerminal e2 (cellTerminal g edge True) True)) (\<lambda>_.
                    mbind (call g (SetTerminal e2 (cellTerminal g edge False) False)) (\<lambda>_.
                    mreturn e2))))
               else mreturn edge) (\<lambda>e h.
          case geoms h e of
            None \<Rightarrow> (Inr e, h)
          | Some geo \<Rightarrow> mbind (setGeometry g e (geo\<lparr>gpoints := pts\<rparr>)) (\<lambda>_. mreturn e) h))
       endUpdate)"

definition removePoint :: "graph_env \<Rightarrow> nat \<Rightarrow> int \<Rightarrow> unit hm" where
  \<comment> \<open>\<open>removePoint(state, index)\<close>; the second argument is \<open>state.cell\<close>\<close>
  "removePoint g stateCell i =
     (\<lambda>h. if i > 0 \<and> i < int (length (abspoints h)) - 1
          then (case geoms h (cell h) of
                  None \<Rightarrow> (Inr (), h)
                | Some geo \<Rightarrow>
                    (case gpoints geo of
                       None \<Rightarrow> (Inr (), h)
                     | Some pts \<Rightarrow>
                         mbind (setGeometry g stateCell (geo\<lparr>gpoints := Some (splice1 pts (i - 1))\<rparr>))
                           (\<lambda>_. mbind (refresh g) (\<lambda>_. redraw False)) h))
          else (Inr (), h))"

definition commitCustomHandle :: "graph_env \<Rightarrow> int \<Rightarrow> unit hm" where
  \<comment> \<open>the branch of \<open>mouseUp\<close> for a custom handle\<close>
  "commitCustomHandle g i =
     (\<lambda>h. case customHandles h of
             None \<Rightarrow> (Inr (), h)
           | Some n \<Rightarrow>
               mbind beginUpdate (\<lambda>_.
               mfinally
                 (mbind (if CUSTOM_HANDLE g - i < int n
                         then call g (CustomExecute (nat (CUSTOM_HANDLE g - i)))
                         else mthrow (TypeError ''Cannot read properties of undefined'')) (\<lambda>_.
                  if shape h
                  then mbind (call g (GraphCall ''shape.apply'')) (\<lambda>_.
                       call g (GraphCall ''shape.redraw''))
                  else mreturn ()))
                 endUpdate) h)"

definition commitTerminal :: "graph_env \<Rightarrow> nat \<Rightarrow> bool \<Rightarrow> nat hm" where
  \<comment> \<open>the branch of \<open>mouseUp\<close> for the source or target handle\<close>
  "commitTerminal g edge clone =
     (\<lambda>h.
        (let terminal =
               (case (if constraintHandler h then constraintFocus g else None) of
                  Some t \<Rightarrow> Some t
                | None \<Rightarrow> markerTerminal g)
         in case terminal of
              Some t \<Rightarrow>
                mbind beginUpdate (\<lambda>_.
                mfinally
                  (mbind (if clone
                          then (\<lambda>h1.
                                 mbind (cloneCell g edge) (\<lambda>e2.
                                 mbind (call g (ModelAdd (cellParent g edge) e2
                                                  (childCount g (cellParent g edge)))) (\<lambda>_.
                                 mbind (case geoms h1 edge of
                                          None \<Rightarrow> mreturn ()
                                        | Some geo \<Rightarrow> setGeometry g e2 geo) (\<lambda>_.
                                 mbind (call g (ConnectCell e2 (cellTerminal g edge (\<not> isSource h))
                                                  (\<not> isSource h))) (\<lambda>_.
                                 mreturn e2)))) h1)
                          else mreturn edge)
                     (\<lambda>e. connect g e t (isSource h)))
                  endUpdate) h
            | None \<Rightarrow>
                (if allowDanglingEdges g
                 then (let k = (if isSource h then 0 else int (length (abspoints h)) - 1) in
                       case js_nth (abspoints h) k of
                         None \<Rightarrow> (Inl (TypeError ''Cannot read properties of undefined''), h)
                       | Some p \<Rightarrow>
                           (let x1 = roundLength (px p / viewScale g - px (viewTranslate g));
                                y1 = roundLength (py p / viewScale g - py (viewTranslate g));
                                x2 = (case parentOrigin g of None \<Rightarrow> x1 | Some org \<Rightarrow> x1 - px org);
                                y2 = (case parentOrigin g of None \<Rightarrow> y1 | Some org \<Rightarrow> y1 - py org);
                                pt = \<lparr>px = x2 - panDx g / viewScale g,
                                      py = y2 - panDy g / viewScale g\<rparr>
                            in changeTerminalPoint g edge pt (isSource h) clone
                                 (h\<lparr>abspoints := (abspoints h)[nat k := Some pt]\<rparr>)))
                 else (Inr edge, h))))"

definition mouseUp :: "graph_env \<Rightarrow> mouse_event \<Rightarrow> unit hm" where
  "mouseUp g me =
     (\<lambda>h0.
        case index h0 of
          None \<Rightarrow> (Inr (), h0)
        | Some i \<Rightarrow>
            (if \<not> marker h0 then (Inr (), h0)
             else
               (let edge = cell h0; h = h0\<lparr>index := None\<rparr> in
                mbind
                  (if me_x me \<noteq> startX h \<or> me_y me \<noteq> startY h
                   then (let clone = (\<not> ignoreTerminalEvent me \<and> cloneEvent me \<and>
                                      cloneEnabled h \<and> cellsCloneable g) in
                         case error h of
                           Some err \<Rightarrow>
                             mbind (if length err > 0 then call g (GraphCall ''validationAlert'')
                                    else mreturn ()) (\<lambda>_. mreturn edge)
                         | None \<Rightarrow>
                             (if i \<le> CUSTOM_HANDLE g \<and> i > VIRTUAL_HANDLE g
                              then mbind (commitCustomHandle g i) (\<lambda>_. mreturn edge)
                              else if isLabel h \<and> label h \<noteq> None
                              then mbind (moveLabel g (px (the (label h))) (py (the (label h))))
                                     (\<lambda>_. mreturn edge)
                              else if isSource h \<or> isTarget h
                              then commitTerminal g edge clone
                              else if active h
                              then changePoints g edge (points h) clone
                              else mbind (call g (GraphCall ''view.invalidate'')) (\<lambda>_.
                                   mbind (call g (GraphCall ''view.validate'')) (\<lambda>_.
                                   mreturn edge))))
                   else if toggleEvent me
                   then mbind (call g (GraphCall ''selectCellForEvent'')) (\<lambda>_. mreturn edge)
                   else mreturn edge)
                  (\<lambda>e h1.
                     if marker h1
                     then mbind (reset g) (\<lambda>_ h2.
                            if e \<noteq> cell h2 then call g (GraphCall ''setSelectionCell'') h2
                            else (Inr (), h2)) h1
                     else (Inr (), h1)) h)))"

section \<open>Brackets of model updates\<close>

text \<open>
  The calls that change the model of the graph, and the depth of \<open>beginUpdate\<close> brackets
  along a sequence of calls: \<open>update_depth d es\<close> is the depth after the calls \<open>es\<close>
  made at depth \<open>d\<close>, and \<open>None\<close> if one of them changes the model outside every
  bracket or an \<open>endUpdate\<close> has no \<open>beginUpdate\<close> before it.
\<close>

fun is_mutation :: "mevent \<Rightarrow> bool" where
  "is_mutation BeginUpdate = False"
| "is_mutation EndUpdate = False"
| "is_mutation (GraphCall name) = False"
| "is_mutation (SetGeometry c geo) = True"
| "is_mutation (ModelAdd p c i) = True"
| "is_mutation (SetTerminal c t src) = True"
| "is_mutation (ConnectCell c t src) = True"
| "is_mutation (CustomExecute i) = True"

fun update_depth :: "nat \<Rightarrow> mevent list \<Rightarrow> nat option" where
  "update_depth d [] = Some d"
| "update_depth d (ev # es) =
     (if ev = BeginUpdate then update_depth (Suc d) es
      else if ev = EndUpdate then (if d = 0 then None else update_depth (d - 1) es)
      else if is_mutation ev \<and> d = 0 then None
      else update_depth d es)"

definition bracketed :: "mevent list \<Rightarrow> bool" where
  \<comment> \<open>every change of the model lies between a \<open>beginUpdate\<close> and its \<open>endUpdate\<close>, and
      every bracket is closed\<close>
  "bracketed es = (update_depth 0 es = Some 0)"

section \<open>Examples\<close>

text \<open>Concrete codecs, decoders and states, on which the theorems are instantiated.\<close>

definition plain :: "string \<Rightarrow> (string \<times> jsval) list \<Rightarrow> jsobj" where
  "plain cn ps = \<lparr>ctor = cn, kind = PlainObject, props = ps\<rparr>"

definition plain_codec :: "string \<Rightarrow> codec" where
  \<comment> \<open>\<open>new mxObjectCodec(new C())\<close> for a class \<open>C\<close> without fields\<close>
  "plain_codec cn = mxObjectCodec decimal_env (plain cn []) (plain cn []) None None None"

definition no_decoder :: decoder where
  \<comment> \<open>a decoder that knows no object and decodes every node to \<open>null\<close>\<close>
  "no_decoder =
     \<lparr>dec_getObject = (\<lambda>v. mreturn Null),
      dec_decode = (\<lambda>node into. mreturn Null),
      allowEval = False,
      js_eval = (\<lambda>src. mreturn Undefined),
      load_xml = (\<lambda>name. mreturn None)\<rparr>"

definition one_object :: "jsobj \<Rightarrow> dstate" where
  \<comment> \<open>a state whose heap holds the object at every address, with nothing decoded yet\<close>
  "one_object ob = \<lparr>store = (\<lambda>a. ob), nextAddr = 1, objects = (\<lambda>k. None), warnings = []\<rparr>"

definition cell_codec :: codec where
  \<comment> \<open>a codec for cells that excludes \<open>parent\<close> and refers to \<open>source\<close> by id\<close>
  "cell_codec =
     mxObjectCodec decimal_env (plain ''Cell'' []) (plain ''Cell'' []) (Some [''parent''])
       (Some [''source'']) None"

definition no_encoder :: encoder where
  \<comment> \<open>an encoder that knows no id and encodes no object\<close>
  "no_encoder = \<lparr>enc_getId = (\<lambda>v. None), enc_encode = (\<lambda>v. None), encodeDefaults = False\<rparr>"

definition cell_heap :: heap where
  "cell_heap = (\<lambda>a. plain ''Cell'' [(''value'', JStr ''hello''), (''parent'', JObj 1)])"








definition style_codec :: codec where
  \<comment> \<open>a codec for cells whose template has the style \<open>default\<close>; it excludes
      \<open>parent\<close> and refers to \<open>source\<close> by id\<close>
  "style_codec =
     mxObjectCodec decimal_env (plain ''Cell'' [(''style'', JStr ''default'')])
       (plain ''Cell'' [(''style'', JStr ''default'')]) (Some [''parent''])
       (Some [''source'']) None"

definition naming_encoder :: encoder where
  \<comment> \<open>an encoder that knows the id \<open>n3\<close> of the object 3 and encodes every object as an
      empty node \<open>Geometry\<close>\<close>
  "naming_encoder =
     \<lparr>enc_getId = (\<lambda>v. if v = JObj 3 then Some ''n3'' else None),
      enc_encode = (\<lambda>v. Some (Element ''Geometry'' [] [])),
      encodeDefaults = False\<rparr>"

definition styled_heap :: heap where
  "styled_heap =
     (\<lambda>a. plain ''Cell''
            [(''value'', JStr ''hello''), (''style'', JStr ''default''), (''source'', JObj 3),
             (''geometry'', JObj 2), (''visible'', JBool True)])"

definition quiet_graph :: graph_env where
  \<comment> \<open>a graph whose calls never throw, at scale 1, with no terminal under the mouse\<close>
  "quiet_graph =
     \<lparr>throws = (\<lambda>ev. False),
      isCellBendable = (\<lambda>c. True),
      entityRelation = (\<lambda>pts. False),
      cellParent = (\<lambda>c. 0),
      childCount = (\<lambda>c. 1),
      cellTerminal = (\<lambda>c src. None),
      cellsCloneable = True,
      allowDanglingEdges = True,
      constraintFocus = None,
      markerTerminal = None,
      viewScale = 1,
      viewTranslate = \<lparr>px = 0, py = 0\<rparr>,
      parentOrigin = None,
      panDx = 0,
      panDy = 0,
      getRelativePoint = (\<lambda>x y. \<lparr>px = x, py = y\<rparr>),
      getPoint = (\<lambda>geo. \<lparr>px = 0, py = 0\<rparr>),
      CUSTOM_HANDLE = - 100,
      VIRTUAL_HANDLE = - 100000\<rparr>"

definition edge_geometry :: geometry where
  \<comment> \<open>an edge with two control points\<close>
  "edge_geometry =
     \<lparr>gx = 0, gy = 0, relative = False, offset = None,
      gpoints = Some [Some \<lparr>px = 10, py = 10\<rparr>, Some \<lparr>px = 20, py = 20\<rparr>],
      sourcePoint = None, targetPoint = None\<rparr>"

definition edge_handler :: handler where
  \<comment> \<open>the handler of the selected edge 1, at rest: four absolute points, a bend on each\<close>
  "edge_handler =
     \<lparr>index = None, error = None, label = Some \<lparr>px = 15, py = 15\<rparr>, points = Some [],
      snapPoint = None, isLabel = False, isSource = False, isTarget = False, active = False,
      abspoints = [Some \<lparr>px = 0, py = 0\<rparr>, Some \<lparr>px = 10, py = 10\<rparr>,
                   Some \<lparr>px = 20, py = 20\<rparr>, Some \<lparr>px = 30, py = 30\<rparr>],
      bends = [True, True, True, True],
      virtualBends = None, customHandles = Some 0,
      labelShape = True, shape = True, marker = True, constraintHandler = True,
      cloneEnabled = True, startX = 0, startY = 0,
      cell = 1,
      absolutePoints = [Some \<lparr>px = 0, py = 0\<rparr>, Some \<lparr>px = 10, py = 10\<rparr>,
                        Some \<lparr>px = 20, py = 20\<rparr>, Some \<lparr>px = 30, py = 30\<rparr>],
      absoluteOffset = \<lparr>px = 15, py = 15\<rparr>,
      geoms = (\<lambda>c. if c = 1 then Some edge_geometry else None),
      nextCell = 2,
      trace = []\<rparr>"

section \<open>Names that are strings\<close>

lemma isExcluded_JStr:
  "isExcluded env c (JStr s) = (s = FIELD_NAME env \<or> s \<in> set (exclude c))"
  by (auto simp: isExcluded_def loose_eq_def bool_to_number_def)

lemma isReference_JStr: "isReference c (JStr s) = (s \<in> set (idrefs c))"
  by (auto simp: isReference_def)

lemma isReference_Null: "\<not> isReference c Null"
  by (auto simp: isReference_def)

lemma getFieldName_own:
  assumes "get_prop env (reverse c) s = Undefined"
  shows "getFieldName env c (JStr s) = JStr s"
  using assms by (simp add: getFieldName_def is_nullish_def js_toString_def)

lemma getFieldName_Null: "getFieldName env c Null = Null"
  by (simp add: getFieldName_def is_nullish_def)

lemma getAttributeName_own:
  assumes "get_prop env (mapping c) s = Undefined"
  shows "getAttributeName env c (JStr s) = JStr s"
  using assms by (simp add: getAttributeName_def is_nullish_def js_toString_def)

lemma getAttributeName_Null: "getAttributeName env c Null = Null"
  by (simp add: getAttributeName_def is_nullish_def)

lemma decimal_env_fields:
  "parseFloat decimal_env = decimal_parseFloat"
  "stringToNumber decimal_env = decimal_toNumber"
  "numberToString decimal_env = decimal_toString"
  "objToString decimal_env = (\<lambda>a. ''[object Object]'')"
  "objToPrimitive decimal_env = (\<lambda>a. JStr ''[object Object]'')"
  "isNumeric decimal_env = decimal_isNumeric"
  "isInteger decimal_env = decimal_isInteger"
  "FIELD_NAME decimal_env = ''mxObjectId''"
  "inherited decimal_env = decimal_inherited"
  "isXmlName decimal_env = is_xml_name"
  by (simp_all add: decimal_env_def)

lemma nothing_inherited:
  assumes "key \<notin> set object_members" "key \<notin> set array_members" "key \<noteq> ''length''"
  shows "get_prop decimal_env empty_object key = Undefined"
    and "get_prop decimal_env empty_array key = Undefined"
  using assms
  by (simp_all add: get_prop_def empty_object_def empty_array_def decimal_env_fields
      decimal_inherited_def)


lemma cell_codec_fields:
  "template cell_codec = plain ''Cell'' []"
  "newInstance cell_codec = plain ''Cell'' []"
  "exclude cell_codec = [''parent'']"
  "idrefs cell_codec = [''source'']"
  "mapping cell_codec = empty_array"
  "reverse cell_codec = empty_object"
  "getName cell_codec = ''Cell''"
  by (simp_all add: cell_codec_def mxObjectCodec_def getName_def plain_def for_in_def
      empty_array_def)

lemma plain_names:
  "get_prop decimal_env empty_object ''x'' = Undefined"
  "get_prop decimal_env empty_object ''value'' = Undefined"
  "get_prop decimal_env empty_object ''source'' = Undefined"
  "get_prop decimal_env empty_object ''parent'' = Undefined"
  "get_prop decimal_env empty_array ''value'' = Undefined"
  "get_prop decimal_env empty_array ''source'' = Undefined"
  "get_prop decimal_env empty_array ''parent'' = Undefined"
  by (rule nothing_inherited; simp add: object_members_def array_members_def)+

section \<open>Numeric attributes\<close>





section \<open>Facts about the loops of the codec\<close>

lemma encodeFields_append:
  "encodeFields env h enc c (xs @ ys) st =
     (case encodeFields env h enc c xs st of
        Inl e \<Rightarrow> Inl e
      | Inr st1 \<Rightarrow> encodeFields env h enc c ys st1)"
  by (induction xs arbitrary: st) (auto split: sum.splits)

lemma writeAttribute_log:
  "writeAttribute env h enc c name v (n, l) =
     (case writeAttribute env h enc c name v (n, []) of
        Inl e \<Rightarrow> Inl e
      | Inr st \<Rightarrow> Inr (fst st, l @ snd st))"
  by (auto simp: writeAttribute_def writeComplexAttribute_def split: sum.splits option.splits)

lemma encodeValue_log:
  "encodeValue env h enc c name v (n, l) =
     (case encodeValue env h enc c name v (n, []) of
        Inl e \<Rightarrow> Inl e
      | Inr st \<Rightarrow> Inr (fst st, l @ snd st))"
  unfolding encodeValue_def Let_def
  apply (subst writeAttribute_log)
  apply (subst (2) writeAttribute_log)
  apply (auto simp: split: sum.splits option.splits)
  done

lemma encodeFields_log:
  "encodeFields env h enc c fs (n, l) =
     (case encodeFields env h enc c fs (n, []) of
        Inl e \<Rightarrow> Inl e
      | Inr st \<Rightarrow> Inr (fst st, l @ snd st))"
proof (induction fs arbitrary: n l)
  case Nil
  then show ?case by simp
next
  case (Cons f fs)
  show ?case
  proof (cases "\<not> is_nullish (snd f) \<and> \<not> isExcluded env c (JStr (fst f))")
    case False
    then show ?thesis using Cons.IH[of n l] by auto
  next
    case True
    let ?name = "if isInteger env (fst f) then Null else JStr (fst f)"
    show ?thesis
    proof (cases "encodeValue env h enc c ?name (snd f) (n, [])")
      case (Inl e)
      then show ?thesis using True encodeValue_log[of env h enc c ?name "snd f" n l] by simp
    next
      case (Inr st1)
      obtain n1 l1 where st1: "st1 = (n1, l1)" by (cases st1)
      have a: "encodeValue env h enc c ?name (snd f) (n, l) = Inr (n1, l @ l1)"
        using Inr st1 encodeValue_log[of env h enc c ?name "snd f" n l] by simp
      show ?thesis
        using True Inr st1 a Cons.IH[of n1 "l @ l1"] Cons.IH[of n1 l1]
        by (auto split: sum.splits)
    qed
  qed
qed







lemma write_prop_frame:
  assumes "write_prop obj name x s = (r, s')"
  shows "objects s' = objects s \<and> warnings s' = warnings s \<and> nextAddr s' = nextAddr s"
  using assms by (cases obj) (auto simp: write_prop_def)







lemma getAttributeName_nullish:
  "is_nullish (getAttributeName env c name) = is_nullish name"
  by (auto simp: getAttributeName_def Let_def)






section \<open>Unresolved references\<close>

lemma unresolved_encodeValue:
  assumes "f \<in> set (idrefs c)" "\<not> is_nullish v" "enc_getId enc v = None"
  shows "encodeValue env h enc c (JStr f) v st =
           Inr (fst st, snd st @ [''mxObjectCodec.encode: No ID for '' @ getName c @ ''.'' @ f @
                                  ''='' @ js_toString env v])"
  using assms by (simp add: encodeValue_def isReference_JStr js_toString_def)

lemma encodeFields_node_of_log:
  "map_sum id fst (encodeFields env h enc c fs (n, l)) =
   map_sum id fst (encodeFields env h enc c fs (n, l'))"
  by (subst encodeFields_log, subst (2) encodeFields_log) (auto split: sum.splits)

text \<open>
  Claim C5.  Encoding: for a field named in \<open>idrefs\<close> whose value has no id,
  \<open>encodeValue\<close> returns normally with the node unchanged and one warning more; the
  loop goes on with the next field; and the node of the whole object is the node of the
  object without that field.  Decoding: for an attribute of a field named in \<open>idrefs\<close>
  whose id the decoder resolves to \<open>null\<close>, \<open>decodeAttribute\<close> returns normally, having
  logged one warning and assigned nothing, and the loop goes on with the next attribute.
\<close>

theorem unresolved_reference_skips_only_its_field:
  shows "(f \<in> set (idrefs c) \<and> \<not> isInteger env f \<and> \<not> isExcluded env c (JStr f) \<and>
          \<not> is_nullish v \<and> enc_getId enc v = None \<longrightarrow>
          encodeValue env h enc c (JStr f) v st =
            Inr (fst st, snd st @ [''mxObjectCodec.encode: No ID for '' @ getName c @ ''.'' @ f @
                                   ''='' @ js_toString env v]) \<and>
          encodeFields env h enc c ((f, v) # fs) st =
            encodeFields env h enc c fs
              (fst st, snd st @ [''mxObjectCodec.encode: No ID for '' @ getName c @ ''.'' @ f @
                                 ''='' @ js_toString env v]) \<and>
          map_sum id fst (encodeFields env h enc c (fs1 @ (f, v) # fs) st) =
            map_sum id fst (encodeFields env h enc c (fs1 @ fs) st)) \<and>
         (\<not> isIgnoredAttribute attr \<and> isReference c (getFieldName env c (JStr (fst attr))) \<and>
          convertAttributeFromXml env (store s) attr obj = Inr x \<and>
          dec_getObject dec x s = (Inr tmp, s1) \<and> is_nullish tmp \<longrightarrow>
          decodeAttribute env dec c attr obj s =
            (Inr (),
             s1\<lparr>warnings := warnings s1 @
                  [''mxObjectCodec.decode: No object for '' @ getName c @ ''.'' @ fst attr @
                   ''='' @ js_toString env x]\<rparr>) \<and>
          decodeAttributeList env dec c (attr # attrs) obj s =
            decodeAttributeList env dec c attrs obj
              (s1\<lparr>warnings := warnings s1 @
                   [''mxObjectCodec.decode: No object for '' @ getName c @ ''.'' @ fst attr @
                    ''='' @ js_toString env x]\<rparr>))"
proof -
  let ?w = "''mxObjectCodec.encode: No ID for '' @ getName c @ ''.'' @ f @ ''='' @ js_toString env v"
  have enc_part:
    "encodeValue env h enc c (JStr f) v st = Inr (fst st, snd st @ [?w]) \<and>
     encodeFields env h enc c ((f, v) # fs) st = encodeFields env h enc c fs (fst st, snd st @ [?w]) \<and>
     map_sum id fst (encodeFields env h enc c (fs1 @ (f, v) # fs) st) =
       map_sum id fst (encodeFields env h enc c (fs1 @ fs) st)"
    if a: "f \<in> set (idrefs c)" "\<not> isInteger env f" "\<not> isExcluded env c (JStr f)"
          "\<not> is_nullish v" "enc_getId enc v = None"
  proof -
    have v: "encodeValue env h enc c (JStr f) v st' = Inr (fst st', snd st' @ [?w])" for st'
      using a by (simp add: unresolved_encodeValue)
    have step: "encodeFields env h enc c ((f, v) # fs) st' =
                  encodeFields env h enc c fs (fst st', snd st' @ [?w])" for st'
      using a v by simp
    have "map_sum id fst (encodeFields env h enc c (fs1 @ (f, v) # fs) st) =
            map_sum id fst (encodeFields env h enc c (fs1 @ fs) st)"
    proof (cases "encodeFields env h enc c fs1 st")
      case (Inl e)
      then show ?thesis by (simp add: encodeFields_append)
    next
      case (Inr st1)
      obtain n1 l1 where st1: "st1 = (n1, l1)" by (cases st1)
      show ?thesis
        using Inr st1 step[of st1] encodeFields_node_of_log[of env h enc c fs n1 "l1 @ [?w]" l1]
        by (simp add: encodeFields_append)
    qed
    with v step show ?thesis by blast
  qed
  let ?m = "''mxObjectCodec.decode: No object for '' @ getName c @ ''.'' @ fst attr @ ''='' @
            js_toString env x"
  have dec_part:
    "decodeAttribute env dec c attr obj s = (Inr (), s1\<lparr>warnings := warnings s1 @ [?m]\<rparr>) \<and>
     decodeAttributeList env dec c (attr # attrs) obj s =
       decodeAttributeList env dec c attrs obj (s1\<lparr>warnings := warnings s1 @ [?m]\<rparr>)"
    if b: "\<not> isIgnoredAttribute attr" "isReference c (getFieldName env c (JStr (fst attr)))"
          "convertAttributeFromXml env (store s) attr obj = Inr x"
          "dec_getObject dec x s = (Inr tmp, s1)" "is_nullish tmp"
  proof -
    have d: "decodeAttribute env dec c attr obj s = (Inr (), s1\<lparr>warnings := warnings s1 @ [?m]\<rparr>)"
      using b by (simp add: decodeAttribute_def Let_def mbind_def dlift_def warn_def)
    then show ?thesis by (simp add: mbind_def)
  qed
  from enc_part dec_part show ?thesis by blast
qed

section \<open>Excluded fields\<close>







lemma not_integer:
  "\<not> decimal_isInteger ''value''" "\<not> decimal_isInteger ''parent''"
  "\<not> decimal_isInteger ''geometry''" "\<not> decimal_isInteger ''source''"
  "\<not> decimal_isInteger ''id''"
  by (simp_all add: decimal_isInteger_def is_digit_def digit_val_def)

lemma xml_names:
  "is_xml_name ''Cell''" "is_xml_name ''Array''" "is_xml_name ''value''" "is_xml_name ''as''"
  "is_xml_name ''id''" "is_xml_name ''add''"
  by (simp_all add: is_xml_name_def is_name_start_def is_name_char_def Let_def)

lemma plain_get_prop:
  assumes "key \<notin> set object_members" "cn \<noteq> ''Array''"
  shows "get_prop decimal_env (plain cn ps) key =
           (case map_of ps key of None \<Rightarrow> Undefined | Some v \<Rightarrow> v)"
  using assms
  by (simp add: get_prop_def plain_def decimal_env_fields decimal_inherited_def
      split: option.splits)

lemma cell_defaults:
  "get_prop decimal_env (plain ''Cell'' []) ''value'' = Undefined"
  "get_prop decimal_env (plain ''Cell'' []) ''geometry'' = Undefined"
  by (subst plain_get_prop; simp add: object_members_def)+


lemma set_value_hello:
  "writePrimitiveAttribute decimal_env h (JStr ''value'') (JStr ''hello'') (Element n as cs) =
     Inr (Element n (set_assoc as ''value'' ''hello'') cs)"
  by (simp add: writePrimitiveAttribute_def convertAttributeToXml_def isBooleanAttribute_def
      has_length_def is_nullish_def typeof_def enc_setAttribute_def dom_setAttribute_def
      js_toString_def decimal_env_fields xml_names)

lemma encode_value_hello:
  "encodeValue decimal_env h enc cell_codec (JStr ''value'') (JStr ''hello'')
     (Element n as cs, l) = Inr (Element n (set_assoc as ''value'' ''hello'') cs, l)"
  by (simp add: encodeValue_def is_nullish_def isReference_JStr cell_codec_fields
      js_toString_def cell_defaults loose_eq_def bool_to_number_def getAttributeName_own
      plain_names writeAttribute_def typeof_def set_value_hello)

lemma excluded_parent:
  "isExcluded decimal_env cell_codec (JStr ''parent'')"
  "\<not> isExcluded decimal_env cell_codec (JStr ''value'')"
  "\<not> isExcluded decimal_env cell_codec (JStr ''geometry'')"
  "\<not> isExcluded decimal_env cell_codec (JStr ''source'')"
  by (simp_all add: isExcluded_JStr cell_codec_fields decimal_env_fields)


lemma one_object_fields:
  "store (one_object ob) = (\<lambda>a. ob)"
  "nextAddr (one_object ob) = 1"
  "objects (one_object ob) = (\<lambda>k. None)"
  "warnings (one_object ob) = []"
  by (simp_all add: one_object_def)










section \<open>Failures of add nodes and examples of skipped references\<close>

lemma not_numeric_hello: "\<not> decimal_isNumeric ''hello''"
  by (simp add: decimal_isNumeric_def decimal_parseFloat_def parse_decimal_def split_sign_def
      is_ws_def is_digit_def digit_val_def isNaN_def Let_def)

lemma decode_value_hello:
  assumes "ctor (store s 0) = ''Cell''"
  shows "decodeAttribute decimal_env no_decoder cell_codec (''value'', ''hello'') (JObj 0) s =
           (Inr (), s\<lparr>store := (store s)(0 := set_prop (store s 0) ''value'' (JStr ''hello''))\<rparr>)"
proof -
  have cv: "convertAttributeFromXml decimal_env (store s) (''value'', ''hello'') (JObj 0) =
              Inr (JStr ''hello'')"
    using assms
    by (simp add: convertAttributeFromXml_def isNumericAttribute_def constructor_name_def
        decimal_env_fields not_numeric_hello)
  show ?thesis
    by (simp add: decodeAttribute_def isIgnoredAttribute_def Let_def mbind_def dlift_def cv
        getFieldName_own plain_names isReference_JStr cell_codec_fields isExcluded_JStr
        decimal_env_fields write_prop_def)
qed

lemma not_numeric_n9: "\<not> decimal_isNumeric ''n9''"
  by (simp add: decimal_isNumeric_def decimal_parseFloat_def parse_decimal_def split_sign_def
      is_ws_def is_digit_def digit_val_def isNaN_def Let_def)

theorem unresolved_reference_skips_only_its_field_witness:
  "''source'' \<in> set (idrefs cell_codec) \<and> \<not> isInteger decimal_env ''source'' \<and>
   \<not> isExcluded decimal_env cell_codec (JStr ''source'') \<and> \<not> is_nullish (JObj 5) \<and>
   enc_getId no_encoder (JObj 5) = None \<and>
   encodeFields decimal_env cell_heap no_encoder cell_codec
     [(''source'', JObj 5), (''value'', JStr ''hello'')] (Element ''Cell'' [] [], []) =
     Inr (Element ''Cell'' [(''value'', ''hello'')] [],
          [''mxObjectCodec.encode: No ID for Cell.source=[object Object]'']) \<and>
   \<not> isIgnoredAttribute (''source'', ''n9'') \<and>
   isReference cell_codec (getFieldName decimal_env cell_codec (JStr ''source'')) \<and>
   convertAttributeFromXml decimal_env (store (one_object (plain ''Cell'' [])))
     (''source'', ''n9'') (JObj 0) = Inr (JStr ''n9'') \<and>
   dec_getObject no_decoder (JStr ''n9'') (one_object (plain ''Cell'' [])) =
     (Inr Null, one_object (plain ''Cell'' [])) \<and>
   decodeAttributeList decimal_env no_decoder cell_codec
     [(''source'', ''n9''), (''value'', ''hello'')] (JObj 0) (one_object (plain ''Cell'' [])) =
     (Inr (),
      (one_object (plain ''Cell'' []))
        \<lparr>store := (store (one_object (plain ''Cell'' [])))
                    (0 := plain ''Cell'' [(''value'', JStr ''hello'')]),
         warnings := [''mxObjectCodec.decode: No object for Cell.source=n9'']\<rparr>)"
proof -
  have cv: "convertAttributeFromXml decimal_env (store (one_object (plain ''Cell'' [])))
              (''source'', ''n9'') (JObj 0) = Inr (JStr ''n9'')"
    by (simp add: convertAttributeFromXml_def isNumericAttribute_def constructor_name_def
        one_object_def plain_def decimal_env_fields not_numeric_n9)
  have go: "dec_getObject no_decoder (JStr ''n9'') (one_object (plain ''Cell'' [])) =
              (Inr Null, one_object (plain ''Cell'' []))"
    by (simp add: no_decoder_def mreturn_def)
  have hyp: "''source'' \<in> set (idrefs cell_codec) \<and> \<not> isInteger decimal_env ''source'' \<and>
             \<not> isExcluded decimal_env cell_codec (JStr ''source'') \<and> \<not> is_nullish (JObj 5) \<and>
             enc_getId no_encoder (JObj 5) = None"
    by (simp add: cell_codec_fields decimal_env_fields not_integer excluded_parent
        is_nullish_def no_encoder_def)
  have hyp2: "\<not> isIgnoredAttribute (''source'', ''n9'') \<and>
              isReference cell_codec (getFieldName decimal_env cell_codec (JStr ''source''))"
    by (simp add: isIgnoredAttribute_def isReference_JStr getFieldName_own plain_names
        cell_codec_fields)
  note t = unresolved_reference_skips_only_its_field
             [where f = "''source''" and c = cell_codec and env = decimal_env and v = "JObj 5"
                and enc = no_encoder and h = cell_heap and st = "(Element ''Cell'' [] [], [])"
                and fs = "[(''value'', JStr ''hello'')]" and ?fs1.0 = "[]"
                and attr = "(''source'', ''n9'')" and s = "one_object (plain ''Cell'' [])"
                and obj = "JObj 0" and x = "JStr ''n9''" and dec = no_decoder and tmp = Null
                and ?s1.0 = "one_object (plain ''Cell'' [])"
                and attrs = "[(''value'', ''hello'')]"]
  have e: "encodeFields decimal_env cell_heap no_encoder cell_codec
             [(''source'', JObj 5), (''value'', JStr ''hello'')] (Element ''Cell'' [] [], []) =
           encodeFields decimal_env cell_heap no_encoder cell_codec
             [(''value'', JStr ''hello'')]
             (Element ''Cell'' [] [],
              [''mxObjectCodec.encode: No ID for '' @ getName cell_codec @ ''.'' @ ''source'' @
               ''='' @ js_toString decimal_env (JObj 5)])"
    using t[THEN conjunct1, THEN mp, OF hyp, THEN conjunct2, THEN conjunct1] by simp
  have e': "encodeFields decimal_env cell_heap no_encoder cell_codec
             [(''value'', JStr ''hello'')] (Element ''Cell'' [] [], l) =
            Inr (Element ''Cell'' [(''value'', ''hello'')] [], l)" for l
    by (simp add: is_nullish_def excluded_parent decimal_env_fields not_integer
        encode_value_hello)
  have nl: "is_nullish Null" by (simp add: is_nullish_def)
  have d: "decodeAttributeList decimal_env no_decoder cell_codec
             [(''source'', ''n9''), (''value'', ''hello'')] (JObj 0) (one_object (plain ''Cell'' [])) =
           decodeAttributeList decimal_env no_decoder cell_codec [(''value'', ''hello'')] (JObj 0)
             ((one_object (plain ''Cell'' []))
                \<lparr>warnings := warnings (one_object (plain ''Cell'' [])) @
                   [''mxObjectCodec.decode: No object for '' @ getName cell_codec @ ''.'' @
                    fst (''source'', ''n9'') @ ''='' @ js_toString decimal_env (JStr ''n9'')]\<rparr>)"
    using t[THEN conjunct2] hyp2 cv go by (simp add: is_nullish_def)
  have d': "decodeAttributeList decimal_env no_decoder cell_codec [(''value'', ''hello'')] (JObj 0)
              ((one_object (plain ''Cell'' []))\<lparr>warnings := w\<rparr>) =
            (Inr (),
             (one_object (plain ''Cell'' []))
               \<lparr>store := (store (one_object (plain ''Cell'' [])))
                    (0 := plain ''Cell'' [(''value'', JStr ''hello'')]),
                warnings := w\<rparr>)" for w
  proof -
    have "ctor (store ((one_object (plain ''Cell'' []))\<lparr>warnings := w\<rparr>) 0) = ''Cell''"
      by (simp add: one_object_def plain_def)
    from decode_value_hello[OF this] show ?thesis
      by (simp add: mbind_def mreturn_def one_object_def plain_def set_prop_def)
  qed
  show ?thesis
    using hyp hyp2 cv go e e' d d'
    by (simp add: cell_codec_fields js_toString_def decimal_env_fields one_object_def)
qed

text \<open>
  Claim C8.  For a child node named \<open>add\<close> whose field is not excluded: when storing the
  value with \<open>addObjectValue\<close> throws an exception \<open>e\<close>, \<open>decodeChild\<close> throws a new
  \<open>Error\<close> whose message is the message of \<open>e\<close> followed by the words \<open>for add\<close>,
  the node's name; it does not return normally.  So an \<open>add\<close> node with a value and
  without a field name, under a target that is not an array, ends in the error
  \<open>obj.push is not a function for add\<close>.
\<close>

theorem add_failure_is_rethrown_with_node_name:
  assumes add: "nodeName child = ''add''"
  shows "((is_nullish (getFieldName env c (js_of_option (getAttribute child ''as''))) \<or>
           \<not> isExcluded env c (getFieldName env c (js_of_option (getAttribute child ''as'')))) \<and>
          getFieldTemplate env obj (getFieldName env c (js_of_option (getAttribute child ''as'')))
            (store s) = Inr tmpl \<and>
          (case getAttribute child ''value'' of
             Some x \<Rightarrow> mreturn (JStr x)
           | None \<Rightarrow> (if allowEval dec then js_eval dec (getTextContent child)
                        else mreturn Null)) s = (Inr v, s1) \<and>
          addObjectValue env obj (getFieldName env c (js_of_option (getAttribute child ''as'')))
            v tmpl s1 = (Inl e, s2) \<longrightarrow>
          decodeChild env dec c child obj s =
            (Inl (Error (message e @ '' for add'')), s2)) \<and>
         (getAttribute child ''as'' = None \<and> getAttribute child ''value'' = Some x \<and>
          kind (store s a) \<noteq> ArrayObject \<and> get_prop env (store s a) ''null'' \<noteq> JStr x \<longrightarrow>
          decodeChild env dec c child (JObj a) s =
            (Inl (Error ''obj.push is not a function for add''), s))"
proof -
  let ?fn = "getFieldName env c (js_of_option (getAttribute child ''as''))"
  have general: "decodeChild env dec c child obj s = (Inl (Error (message e @ '' for add'')), s2)"
    if "is_nullish ?fn \<or> \<not> isExcluded env c ?fn"
      "getFieldTemplate env obj ?fn (store s) = Inr tmpl"
      "(case getAttribute child ''value'' of
          Some x \<Rightarrow> mreturn (JStr x)
        | None \<Rightarrow> (if allowEval dec then js_eval dec (getTextContent child)
                     else mreturn Null)) s = (Inr v, s1)"
      "addObjectValue env obj ?fn v tmpl s1 = (Inl e, s2)"
    for obj tmpl v s1 e s2
    using that add
    by (simp add: decodeChild_def Let_def mbind_def dlift_def mcatch_def mthrow_def)
  have push: "decodeChild env dec c child (JObj a) s =
                (Inl (Error ''obj.push is not a function for add''), s)"
    if p: "getAttribute child ''as'' = None" "getAttribute child ''value'' = Some x"
       "kind (store s a) \<noteq> ArrayObject" "get_prop env (store s a) ''null'' \<noteq> JStr x"
  proof -
    let ?t = "get_prop env (store s a) ''null''"
    have fn: "?fn = Null"
      using p by (simp add: js_of_option_def getFieldName_Null)
    have ne: "\<not> strict_eq (JStr x) ?t" using p by (cases ?t) auto
    have "getFieldTemplate env (JObj a) Null (store s) =
            Inr (if (case ?t of
                       JObj b \<Rightarrow> kind (store s b) = ArrayObject \<and> array_length (store s b) > 0
                     | _ \<Rightarrow> False) then Null else ?t)"
      by (simp add: getFieldTemplate_def read_prop_def js_toString_def)
    then obtain tm where tm: "getFieldTemplate env (JObj a) Null (store s) = Inr tm"
      and ne': "\<not> strict_eq (JStr x) tm"
      using ne by (cases "case ?t of
                       JObj b \<Rightarrow> kind (store s b) = ArrayObject \<and> array_length (store s b) > 0
                     | _ \<Rightarrow> False") auto
    have f: "addObjectValue env (JObj a) Null (JStr x) tm s =
               (Inl (TypeError ''obj.push is not a function''), s)"
      using p ne' by (simp add: addObjectValue_def push_def is_nullish_def)
    show ?thesis
      using general[of "JObj a" tm "JStr x" s "TypeError ''obj.push is not a function''" s]
        fn tm f p
      by (simp add: mreturn_def is_nullish_def)
  qed
  from general push show ?thesis by blast
qed

theorem add_failure_is_rethrown_with_node_name_witness:
  "nodeName (Element ''add'' [(''value'', ''x'')] []) = ''add'' \<and>
   getAttribute (Element ''add'' [(''value'', ''x'')] []) ''as'' = None \<and>
   getAttribute (Element ''add'' [(''value'', ''x'')] []) ''value'' = Some ''x'' \<and>
   kind (store (one_object (plain ''Object'' [])) 0) \<noteq> ArrayObject \<and>
   get_prop decimal_env (store (one_object (plain ''Object'' [])) 0) ''null'' \<noteq> JStr ''x'' \<and>
   decodeChild decimal_env no_decoder (plain_codec ''Object'')
     (Element ''add'' [(''value'', ''x'')] []) (JObj 0) (one_object (plain ''Object'' [])) =
     (Inl (Error ''obj.push is not a function for add''), one_object (plain ''Object'' []))"
proof -
  have g: "get_prop decimal_env (plain ''Object'' []) ''null'' = Undefined"
    by (subst plain_get_prop; simp add: object_members_def)
  show ?thesis
    using add_failure_is_rethrown_with_node_name
          [where child = "Element ''add'' [(''value'', ''x'')] []" and c = "plain_codec ''Object''"
             and env = decimal_env and s = "one_object (plain ''Object'' [])" and dec = no_decoder
             and x = "''x''" and a = 0]
    by (simp add: getAttribute_def one_object_fields g) (simp add: plain_def)
qed

section \<open>Redrawing the handles\<close>

lemma createBendsFrom_frame:
  "geoms (snd (createBendsFrom g is h acc)) = geoms h \<and>
   trace (snd (createBendsFrom g is h acc)) = trace h"
proof (induction "is" arbitrary: h acc)
  case Nil
  then show ?case by simp
next
  case (Cons i "is")
  show ?case
    by (cases "points h") (simp_all add: Let_def Cons.IH)
qed

lemma refresh_frame:
  "geoms (snd (refresh g h)) = geoms h \<and> trace (snd (refresh g h)) = trace h"
proof -
  let ?h1 = "h\<lparr>abspoints := absolutePoints h, points := Some []\<rparr>"
  obtain r h2 where c: "createBendsFrom g [0 ..< length (abspoints ?h1)] ?h1 [] = (r, h2)"
    by (cases "createBendsFrom g [0 ..< length (abspoints ?h1)] ?h1 []")
  have f: "geoms h2 = geoms h \<and> trace h2 = trace h"
    using createBendsFrom_frame[of g "[0 ..< length (abspoints ?h1)]" ?h1 "[]"] c by simp
  show ?thesis
    using c f
    by (cases r)
       (auto simp: refresh_def createBends_def mbind_def Let_def split: option.splits)
qed

lemma redrawHandles_frame:
  "geoms (snd (redrawHandles h)) = geoms h \<and> trace (snd (redrawHandles h)) = trace h"
  by (auto simp: redrawHandles_def mbind_def Let_def redrawInnerBends_def split: option.splits)

lemma redraw_frame:
  "geoms (snd (redraw b h)) = geoms h \<and> trace (snd (redraw b h)) = trace h"
proof -
  have "geoms (snd (redrawHandles h')) = geoms h' \<and> trace (snd (redrawHandles h')) = trace h'"
    for h' by (rule redrawHandles_frame)
  then show ?thesis
    by (auto simp: redraw_def mbind_def Let_def drawPreview_def mreturn_def
        split: option.splits)
qed

section \<open>Removing a control point\<close>

lemma splice1_interior:
  assumes "0 < i"
  shows "splice1 pts (i - 1) = take (nat (i - 1)) pts @ drop (nat i) pts"
proof (cases "i - 1 < int (length pts)")
  case True
  then have "min (i - 1) (int (length pts)) = i - 1" by simp
  moreover have "Suc (nat (i - 1)) = nat i" using assms by simp
  ultimately show ?thesis using assms by (simp add: splice1_def Let_def)
next
  case False
  then have m: "min (i - 1) (int (length pts)) = int (length pts)" by simp
  have "length pts \<le> nat (i - 1)" "length pts \<le> nat i" using False assms by simp_all
  then show ?thesis using assms m by (simp add: splice1_def Let_def)
qed

text \<open>
  Claim C7.  For an index that is not strictly between 0 and \<open>abspoints.length - 1\<close>,
  \<open>removePoint\<close> returns with the handler, every geometry and the sequence of calls on the
  model unchanged; the same holds for an interior index when the cell has no geometry or
  the geometry has no points.  For an interior index \<open>i\<close> and a geometry with points
  \<open>pts\<close>, the only call on the model is one \<open>setGeometry\<close>, and afterwards the cell has
  the geometry with the points \<open>pts\<close> without the entry at position \<open>i - 1\<close>: one entry
  less, the entries before position \<open>i - 1\<close> kept in place and the entries after it moved
  down by one, when \<open>pts\<close> has that position.
\<close>

theorem removePoint_removes_interior_control_point:
  shows "(\<not> (0 < i \<and> i < int (length (abspoints h)) - 1) \<longrightarrow>
          removePoint g sc i h = (Inr (), h)) \<and>
         (geoms h (cell h) = None \<or>
          (\<exists>geo. geoms h (cell h) = Some geo \<and> gpoints geo = None) \<longrightarrow>
          removePoint g sc i h = (Inr (), h)) \<and>
         (0 < i \<and> i < int (length (abspoints h)) - 1 \<and>
          geoms h (cell h) = Some geo \<and> gpoints geo = Some pts \<and>
          \<not> throws g (SetGeometry sc (geo\<lparr>gpoints := Some (take (nat (i - 1)) pts @ drop (nat i) pts)\<rparr>)) \<longrightarrow>
          geoms (snd (removePoint g sc i h)) =
            (geoms h)(sc \<mapsto> geo\<lparr>gpoints := Some (take (nat (i - 1)) pts @ drop (nat i) pts)\<rparr>) \<and>
          trace (snd (removePoint g sc i h)) =
            trace h @ [SetGeometry sc (geo\<lparr>gpoints := Some (take (nat (i - 1)) pts @ drop (nat i) pts)\<rparr>)] \<and>
          (nat (i - 1) < length pts \<longrightarrow>
           length (take (nat (i - 1)) pts @ drop (nat i) pts) = length pts - 1 \<and>
           (\<forall>k < length pts - 1.
              (take (nat (i - 1)) pts @ drop (nat i) pts) ! k =
                (if k < nat (i - 1) then pts ! k else pts ! Suc k))))"
proof -
  have outside: "removePoint g sc i h = (Inr (), h)"
    if "\<not> (0 < i \<and> i < int (length (abspoints h)) - 1)"
    using that by (auto simp: removePoint_def)
  have p2: "geoms h (cell h) = None \<or>
          (\<exists>geo. geoms h (cell h) = Some geo \<and> gpoints geo = None) \<longrightarrow>
          removePoint g sc i h = (Inr (), h)"
    by (auto simp: removePoint_def)
  have inside:
    "geoms (snd (removePoint g sc i h)) =
       (geoms h)(sc \<mapsto> geo\<lparr>gpoints := Some (take (nat (i - 1)) pts @ drop (nat i) pts)\<rparr>) \<and>
     trace (snd (removePoint g sc i h)) =
       trace h @ [SetGeometry sc (geo\<lparr>gpoints := Some (take (nat (i - 1)) pts @ drop (nat i) pts)\<rparr>)] \<and>
     (nat (i - 1) < length pts \<longrightarrow>
        length (take (nat (i - 1)) pts @ drop (nat i) pts) = length pts - 1 \<and>
        (\<forall>k < length pts - 1.
           (take (nat (i - 1)) pts @ drop (nat i) pts) ! k =
             (if k < nat (i - 1) then pts ! k else pts ! Suc k)))"
    if a0: "0 < i \<and> i < int (length (abspoints h)) - 1 \<and>
          geoms h (cell h) = Some geo \<and> gpoints geo = Some pts \<and>
          \<not> throws g (SetGeometry sc (geo\<lparr>gpoints := Some (take (nat (i - 1)) pts @ drop (nat i) pts)\<rparr>))"
  proof -
    have a: "0 < i \<and> i < int (length (abspoints h)) - 1" "geoms h (cell h) = Some geo"
      "gpoints geo = Some pts"
      "\<not> throws g (SetGeometry sc (geo\<lparr>gpoints := Some (take (nat (i - 1)) pts @ drop (nat i) pts)\<rparr>))"
      using a0 by simp_all
    let ?geo = "geo\<lparr>gpoints := Some (take (nat (i - 1)) pts @ drop (nat i) pts)\<rparr>"
    let ?h1 = "h\<lparr>geoms := (geoms h)(sc \<mapsto> ?geo), trace := trace h @ [SetGeometry sc ?geo]\<rparr>"
    have sp: "splice1 pts (i - 1) = take (nat (i - 1)) pts @ drop (nat i) pts"
      using a(1) by (simp add: splice1_interior)
    have sg: "setGeometry g sc ?geo h = (Inr (), ?h1)"
      using a(4) by (simp add: setGeometry_def)
    have rp: "removePoint g sc i h = mbind (refresh g) (\<lambda>_. redraw False) ?h1"
      using a sp sg by (simp add: removePoint_def mbind_def)
    obtain r h2 where rf: "refresh g ?h1 = (r, h2)" by (cases "refresh g ?h1")
    have f2: "geoms h2 = geoms ?h1 \<and> trace h2 = trace ?h1"
      using refresh_frame[of g ?h1] rf by simp
    have f3: "geoms (snd (mbind (refresh g) (\<lambda>_. redraw False) ?h1)) = geoms ?h1 \<and>
              trace (snd (mbind (refresh g) (\<lambda>_. redraw False) ?h1)) = trace ?h1"
      using rf f2 redraw_frame[of False h2] by (cases r) (simp_all add: mbind_def)
    have ni: "nat i = Suc (nat (i - 1))" using a(1) by arith
    have len: "length (take (nat (i - 1)) pts @ drop (nat i) pts) = length pts - 1"
      if "nat (i - 1) < length pts"
      using that by (simp add: ni min_def)
    have nth: "(take (nat (i - 1)) pts @ drop (nat i) pts) ! k =
                 (if k < nat (i - 1) then pts ! k else pts ! Suc k)"
      if "nat (i - 1) < length pts" "k < length pts - 1" for k
    proof (cases "k < nat (i - 1)")
      case True
      then show ?thesis using that by (simp add: nth_append)
    next
      case False
      show ?thesis using False that by (simp add: ni nth_append min_def)
    qed
    show ?thesis using rp f3 len nth by simp
  qed
  note p1 = impI[OF outside]
  note p3 = impI[OF inside]
  show ?thesis
    by (rule conjI[OF p1 conjI[OF p2 p3]])
qed

lemma edge_geometry_points:
  "gpoints edge_geometry = Some [Some \<lparr>px = 10, py = 10\<rparr>, Some \<lparr>px = 20, py = 20\<rparr>]"
  by (simp add: edge_geometry_def)

theorem removePoint_removes_interior_control_point_witness:
  "(0::int) < 1 \<and> (1::int) < int (length (abspoints edge_handler)) - 1 \<and>
   geoms edge_handler (cell edge_handler) = Some edge_geometry \<and>
   \<not> throws quiet_graph (SetGeometry 1 (edge_geometry\<lparr>gpoints := Some [Some \<lparr>px = 20, py = 20\<rparr>]\<rparr>)) \<and>
   geoms (snd (removePoint quiet_graph 1 1 edge_handler)) 1 =
     Some (edge_geometry\<lparr>gpoints := Some [Some \<lparr>px = 20, py = 20\<rparr>]\<rparr>) \<and>
   trace (snd (removePoint quiet_graph 1 1 edge_handler)) =
     [SetGeometry 1 (edge_geometry\<lparr>gpoints := Some [Some \<lparr>px = 20, py = 20\<rparr>]\<rparr>)] \<and>
   \<not> (0 < (0::int) \<and> (0::int) < int (length (abspoints edge_handler)) - 1) \<and>
   removePoint quiet_graph 1 0 edge_handler = (Inr (), edge_handler)"
proof -
  have h: "(0::int) < 1 \<and> (1::int) < int (length (abspoints edge_handler)) - 1"
    "geoms edge_handler (cell edge_handler) = Some edge_geometry"
    "trace edge_handler = []"
    by (simp_all add: edge_handler_def)
  have q: "\<not> throws quiet_graph ev" for ev by (simp add: quiet_graph_def)
  note t = removePoint_removes_interior_control_point
             [where i = 1 and h = edge_handler and g = quiet_graph and sc = 1
                and geo = edge_geometry
                and pts = "[Some \<lparr>px = 10, py = 10\<rparr>, Some \<lparr>px = 20, py = 20\<rparr>]"]
  note t0 = removePoint_removes_interior_control_point
             [where i = 0 and h = edge_handler and g = quiet_graph and sc = 1]
  have o: "\<not> (0 < (0::int) \<and> (0::int) < int (length (abspoints edge_handler)) - 1)" by simp
  have r0: "removePoint quiet_graph 1 0 edge_handler = (Inr (), edge_handler)"
    using t0 o by blast
  show ?thesis
    using t h q edge_geometry_points r0 by simp
qed

section \<open>Primitive fields through encoding and decoding\<close>

lemma convertAttributeToXml_primitive:
  "convertAttributeToXml env h (JBool b) = Inr (JStr (if b then ''1'' else ''0''))"
  "convertAttributeToXml env h (JStr x) = Inr (JStr x)"
  "convertAttributeToXml env h (JNum n) =
     Inr (if n = Fin 1 then JStr ''1'' else if n = Fin 0 then JStr ''0'' else JNum n)"
proof -
  show "convertAttributeToXml env h (JBool b) = Inr (JStr (if b then ''1'' else ''0''))"
    by (simp add: convertAttributeToXml_def isBooleanAttribute_def has_length_def loose_eq_def
        bool_to_number_def)
  show "convertAttributeToXml env h (JStr x) = Inr (JStr x)"
    by (simp add: convertAttributeToXml_def isBooleanAttribute_def has_length_def)
  show "convertAttributeToXml env h (JNum n) =
     Inr (if n = Fin 1 then JStr ''1'' else if n = Fin 0 then JStr ''0'' else JNum n)"
    by (cases n)
      (simp_all add: convertAttributeToXml_def isBooleanAttribute_def has_length_def loose_eq_def
        bool_to_number_def)
qed

lemma encodeValue_attribute:
  assumes nref: "\<not> isReference c (JStr f)"
    and ndef: "encodeDefaults enc \<or> \<not> loose_eq env (get_prop env (template c) f) v"
    and prim: "\<exists>b n x. v = JBool b \<or> v = JNum n \<or> v = JStr x"
    and cv: "convertAttributeToXml env h v = Inr v'"
    and prim': "\<exists>n x. v' = JNum n \<or> v' = JStr x"
  shows "encodeValue env h enc c (JStr f) v st =
           (case dom_setAttribute env (fst st)
                   (js_toString env (getAttributeName env c (JStr f))) (js_toString env v') of
              Inl e \<Rightarrow> Inl e
            | Inr n \<Rightarrow> Inr (n, snd st))"
proof -
  have nn: "\<not> is_nullish v" "typeof h v \<noteq> TObject"
    using prim by (auto simp: is_nullish_def typeof_def)
  have nn': "\<not> is_nullish v'" "typeof h v' \<noteq> TFunction"
    using prim' by (auto simp: is_nullish_def typeof_def)
  have an: "\<not> is_nullish (getAttributeName env c (JStr f))"
    using getAttributeName_nullish[of env c "JStr f"] by (simp add: is_nullish_def)
  have w: "writeAttribute env h enc c (getAttributeName env c (JStr f)) v st =
           (case dom_setAttribute env (fst st)
                   (js_toString env (getAttributeName env c (JStr f))) (js_toString env v') of
              Inl e \<Rightarrow> Inl e
            | Inr n \<Rightarrow> Inr (n, snd st))"
    using nn nn' an cv
    by (simp add: writeAttribute_def writePrimitiveAttribute_def enc_setAttribute_def)
  show ?thesis
    using nref ndef nn w
    by (auto simp: encodeValue_def Let_def js_toString_def is_nullish_def)
qed











section \<open>The structure of an encoded node\<close>

lemma dom_setAttribute_nodeName:
  assumes "dom_setAttribute env node a v = Inr node'"
  shows "nodeName node' = nodeName node"
  using assms by (auto simp: dom_setAttribute_def split: if_splits)

lemma enc_setAttribute_nodeName:
  assumes "enc_setAttribute env node name v = Inr node'"
  shows "nodeName node' = nodeName node"
  using assms dom_setAttribute_nodeName
  by (auto simp: enc_setAttribute_def split: if_splits)

lemma writeAttribute_nodeName:
  assumes "writeAttribute env h enc c name v st = Inr st'"
  shows "nodeName (fst st') = nodeName (fst st)"
proof (cases "typeof h v \<noteq> TObject")
  case True
  then obtain node' where p: "writePrimitiveAttribute env h name v (fst st) = Inr node'"
    and st': "st' = (node', snd st)"
    using assms by (auto simp: writeAttribute_def split: sum.splits)
  obtain v' where v': "convertAttributeToXml env h v = Inr v'"
    using p by (auto simp: writePrimitiveAttribute_def split: sum.splits)
  have "nodeName node' = nodeName (fst st)"
  proof (cases "is_nullish name")
    case n: True
    then obtain child' where "node' = appendChild (fst st) (ElementNode child')"
      using p v' by (auto simp: writePrimitiveAttribute_def split: sum.splits)
    then show ?thesis by (simp add: appendChild_def)
  next
    case n: False
    show ?thesis
    proof (cases "typeof h v' \<noteq> TFunction")
      case True
      then have "enc_setAttribute env (fst st) name v' = Inr node'"
        using p v' n by (simp add: writePrimitiveAttribute_def)
      then show ?thesis by (rule enc_setAttribute_nodeName)
    next
      case False
      then have "node' = fst st" using p v' n by (simp add: writePrimitiveAttribute_def)
      then show ?thesis by simp
    qed
  qed
  with st' show ?thesis by simp
next
  case False
  then have w: "writeComplexAttribute env enc c name v st = Inr st'"
    using assms by (simp add: writeAttribute_def)
  show ?thesis
  proof (cases "enc_encode enc v")
    case None
    then have "fst st' = fst st" using w by (auto simp: writeComplexAttribute_def)
    then show ?thesis by simp
  next
    case (Some child)
    then obtain child' where "st' = (appendChild (fst st) (ElementNode child'), snd st)"
      using w by (auto simp: writeComplexAttribute_def split: sum.splits)
    then show ?thesis by (simp add: appendChild_def)
  qed
qed

lemma encodeValue_nodeName:
  assumes "encodeValue env h enc c name v st = Inr st'"
  shows "nodeName (fst st') = nodeName (fst st)"
proof -
  from assms consider "fst st' = fst st"
    | v' where "writeAttribute env h enc c (getAttributeName env c name) v' st = Inr st'"
    by (auto simp: encodeValue_def Let_def split: if_splits option.splits)
  then show ?thesis
  proof cases
    case 1
    then show ?thesis by simp
  next
    case 2
    then show ?thesis by (rule writeAttribute_nodeName)
  qed
qed

lemma encodeFields_nodeName:
  assumes "encodeFields env h enc c fs st = Inr st'"
  shows "nodeName (fst st') = nodeName (fst st)"
  using assms
proof (induction fs arbitrary: st)
  case Nil
  then show ?case by simp
next
  case (Cons f fs)
  show ?case
  proof (cases "\<not> is_nullish (snd f) \<and> \<not> isExcluded env c (JStr (fst f))")
    case False
    then have "encodeFields env h enc c fs st = Inr st'" using Cons.prems by auto
    then show ?thesis by (rule Cons.IH)
  next
    case True
    then obtain st1 where
      v: "encodeValue env h enc c (if isInteger env (fst f) then Null else JStr (fst f))
            (snd f) st = Inr st1"
      and r: "encodeFields env h enc c fs st1 = Inr st'"
      using Cons.prems by (auto split: sum.splits)
    from Cons.IH[OF r] encodeValue_nodeName[OF v] show ?thesis by simp
  qed
qed

lemma encode_nodeName:
  assumes r: "encode env h enc c obj l = Inr (node, l')"
  shows "nodeName node = getName c"
proof -
  obtain n0 where n0: "createElement env (getName c) = Inr n0"
    and eo: "encodeObject env h enc c obj (n0, l) = Inr (node, l')"
    using r
    by (auto simp: encode_def beforeEncode_def afterEncode_def Let_def split: sum.splits)
  have nn: "nodeName n0 = getName c"
    using n0 by (auto simp: createElement_def split: if_splits)
  obtain n1 where
    n1: "enc_setAttribute env n0 (JStr ''id'')
           (case enc_getId enc (JObj obj) of None \<Rightarrow> Null | Some i \<Rightarrow> JStr i) = Inr n1"
    and fs: "encodeFields env h enc c (for_in (h obj)) (n1, l) = Inr (node, l')"
    using eo by (auto simp: encodeObject_def split: sum.splits)
  from encodeFields_nodeName[OF fs] enc_setAttribute_nodeName[OF n1] nn show ?thesis by simp
qed

lemma encodeValue_default:
  assumes "\<not> isReference c (JStr f)" "\<not> encodeDefaults enc"
    "loose_eq env (get_prop env (template c) f) v"
  shows "encodeValue env h enc c (JStr f) v st = Inr st"
  using assms by (simp add: encodeValue_def Let_def is_nullish_def js_toString_def)

lemma encodeValue_reference:
  assumes ref: "isReference c (JStr f)" and nn: "\<not> is_nullish v"
    and ident: "enc_getId enc v = Some i"
    and ndef: "encodeDefaults enc \<or> \<not> loose_eq env (get_prop env (template c) f) (JStr i)"
  shows "encodeValue env h enc c (JStr f) v st =
           (case dom_setAttribute env (fst st)
                   (js_toString env (getAttributeName env c (JStr f))) i of
              Inl e \<Rightarrow> Inl e
            | Inr n \<Rightarrow> Inr (n, snd st))"
proof -
  have an: "\<not> is_nullish (getAttributeName env c (JStr f))"
    using getAttributeName_nullish[of env c "JStr f"] by (simp add: is_nullish_def)
  have w: "writeAttribute env h enc c (getAttributeName env c (JStr f)) (JStr i) st =
           (case dom_setAttribute env (fst st)
                   (js_toString env (getAttributeName env c (JStr f))) i of
              Inl e \<Rightarrow> Inl e
            | Inr n \<Rightarrow> Inr (n, snd st))"
    using an
    by (simp add: writeAttribute_def writePrimitiveAttribute_def enc_setAttribute_def
        typeof_def convertAttributeToXml_primitive is_nullish_def js_toString_def)
  show ?thesis
    using ref nn ident ndef w
    by (auto simp: encodeValue_def Let_def js_toString_def is_nullish_def)
qed

lemma encodeValue_object:
  assumes nref: "\<not> isReference c (JStr f)" and nn: "\<not> is_nullish v"
    and obj: "typeof h v = TObject"
    and ndef: "encodeDefaults enc \<or> \<not> loose_eq env (get_prop env (template c) f) v"
    and child: "enc_encode enc v = Some child"
  shows "encodeValue env h enc c (JStr f) v st =
           (case dom_setAttribute env child ''as''
                   (js_toString env (getAttributeName env c (JStr f))) of
              Inl e \<Rightarrow> Inl e
            | Inr child' \<Rightarrow> Inr (appendChild (fst st) (ElementNode child'), snd st))"
proof -
  have an: "\<not> is_nullish (getAttributeName env c (JStr f))"
    using getAttributeName_nullish[of env c "JStr f"] by (simp add: is_nullish_def)
  have w: "writeAttribute env h enc c (getAttributeName env c (JStr f)) v st =
           (case dom_setAttribute env child ''as''
                   (js_toString env (getAttributeName env c (JStr f))) of
              Inl e \<Rightarrow> Inl e
            | Inr child' \<Rightarrow> Inr (appendChild (fst st) (ElementNode child'), snd st))"
    using an obj child by (simp add: writeAttribute_def writeComplexAttribute_def)
  show ?thesis
    using nref nn ndef w
    by (auto simp: encodeValue_def Let_def js_toString_def is_nullish_def)
qed

lemma encodeValue_element:
  assumes "isXmlName env ''add''" "isXmlName env ''value''"
  shows "encodeValue env h enc c Null (JStr x) st =
           Inr (appendChild (fst st) (ElementNode (Element ''add'' [(''value'', x)] [])),
                snd st)"
  using assms
  by (simp add: encodeValue_def Let_def is_nullish_def isReference_Null getAttributeName_Null
      writeAttribute_def typeof_def writePrimitiveAttribute_def convertAttributeToXml_primitive
      createElement_def enc_setAttribute_def dom_setAttribute_def js_toString_def)

text \<open>
  Claim C4, as the code has it.  \<open>encode\<close> creates an element named by \<open>getName\<close>, the
  name of the constructor of the codec's template.  The loop of \<open>encodeObject\<close> passes
  over a field whose value is \<open>null\<close> or \<open>undefined\<close> or whose name is excluded, and
  hands every other field to \<open>encodeValue\<close>, with its name, or with \<open>null\<close> for a
  name that is an array index.  For a named field \<open>f\<close>, with \<open>a\<close> the string of
  \<open>getAttributeName(f)\<close>:

  \<^item> a value equal (\<open>==\<close>) to the template's value for \<open>f\<close> is not written at all,
    unless \<open>encodeDefaults\<close> is set;

  \<^item> a field in \<open>idrefs\<close> whose value has the id \<open>i\<close> becomes the attribute \<open>a = i\<close>;

  \<^item> a value of type \<open>object\<close> that the encoder encodes to a node becomes a child, that
    node with \<open>as = a\<close>;

  \<^item> a boolean, a number or a string becomes the attribute \<open>a\<close> with the string of the
    value, \<open>1\<close> for \<open>true\<close> and \<open>0\<close> for \<open>false\<close>.

  Each of these is refused with an exception if the document does not accept the name
  \<open>a\<close>.  A string under an array index becomes a child \<open><add value="..."/>\<close>, not
  an attribute.
\<close>

theorem encode_writes_fields_that_differ_from_the_template:
  shows "(encode env h enc c obj l = Inr (node, l') \<longrightarrow> nodeName node = getName c) \<and>
         (\<not> is_nullish v \<and> \<not> isExcluded env c (JStr f) \<longrightarrow>
          encodeFields env h enc c ((f, v) # fs) st =
            (case encodeValue env h enc c (if isInteger env f then Null else JStr f) v st of
               Inl e \<Rightarrow> Inl e
             | Inr st' \<Rightarrow> encodeFields env h enc c fs st')) \<and>
         (is_nullish ve \<or> isExcluded env c (JStr fe) \<longrightarrow>
          encodeFields env h enc c ((fe, ve) # fs) st = encodeFields env h enc c fs st) \<and>
         (\<not> isReference c (JStr fd) \<and> \<not> encodeDefaults enc \<and>
          loose_eq env (get_prop env (template c) fd) vd \<longrightarrow>
          encodeValue env h enc c (JStr fd) vd st = Inr st) \<and>
         (isReference c (JStr fr) \<and> \<not> is_nullish vr \<and> enc_getId enc vr = Some i \<and>
          (encodeDefaults enc \<or> \<not> loose_eq env (get_prop env (template c) fr) (JStr i)) \<longrightarrow>
          encodeValue env h enc c (JStr fr) vr st =
            (case dom_setAttribute env (fst st)
                    (js_toString env (getAttributeName env c (JStr fr))) i of
               Inl e \<Rightarrow> Inl e
             | Inr n \<Rightarrow> Inr (n, snd st))) \<and>
         (\<not> isReference c (JStr fo) \<and> \<not> is_nullish vo \<and> typeof h vo = TObject \<and>
          (encodeDefaults enc \<or> \<not> loose_eq env (get_prop env (template c) fo) vo) \<and>
          enc_encode enc vo = Some child \<longrightarrow>
          encodeValue env h enc c (JStr fo) vo st =
            (case dom_setAttribute env child ''as''
                    (js_toString env (getAttributeName env c (JStr fo))) of
               Inl e \<Rightarrow> Inl e
             | Inr child' \<Rightarrow> Inr (appendChild (fst st) (ElementNode child'), snd st))) \<and>
         (\<not> isReference c (JStr fp) \<and>
          (encodeDefaults enc \<or> \<not> loose_eq env (get_prop env (template c) fp) vp) \<and>
          (vp = JBool b \<or> vp = JNum m \<or> vp = JStr x) \<and>
          convertAttributeToXml env h vp = Inr v' \<longrightarrow>
          encodeValue env h enc c (JStr fp) vp st =
            (case dom_setAttribute env (fst st)
                    (js_toString env (getAttributeName env c (JStr fp))) (js_toString env v') of
               Inl e \<Rightarrow> Inl e
             | Inr n \<Rightarrow> Inr (n, snd st))) \<and>
         convertAttributeToXml env h (JBool b) = Inr (JStr (if b then ''1'' else ''0'')) \<and>
         (isXmlName env ''add'' \<and> isXmlName env ''value'' \<longrightarrow>
          encodeValue env h enc c Null (JStr xa) st =
            Inr (appendChild (fst st) (ElementNode (Element ''add'' [(''value'', xa)] [])),
                 snd st))"
proof -
  have a: "nodeName node = getName c" if "encode env h enc c obj l = Inr (node, l')"
    using that by (rule encode_nodeName)
  have b1: "encodeFields env h enc c ((f, v) # fs) st =
            (case encodeValue env h enc c (if isInteger env f then Null else JStr f) v st of
               Inl e \<Rightarrow> Inl e
             | Inr st' \<Rightarrow> encodeFields env h enc c fs st')"
    if "\<not> is_nullish v \<and> \<not> isExcluded env c (JStr f)"
    using that by simp
  have b2: "encodeFields env h enc c ((fe, ve) # fs) st = encodeFields env h enc c fs st"
    if "is_nullish ve \<or> isExcluded env c (JStr fe)"
    using that by auto
  have d: "encodeValue env h enc c (JStr fd) vd st = Inr st"
    if "\<not> isReference c (JStr fd) \<and> \<not> encodeDefaults enc \<and>
          loose_eq env (get_prop env (template c) fd) vd"
    using that by (intro encodeValue_default) simp_all
  have r: "encodeValue env h enc c (JStr fr) vr st =
            (case dom_setAttribute env (fst st)
                    (js_toString env (getAttributeName env c (JStr fr))) i of
               Inl e \<Rightarrow> Inl e
             | Inr n \<Rightarrow> Inr (n, snd st))"
    if "isReference c (JStr fr) \<and> \<not> is_nullish vr \<and> enc_getId enc vr = Some i \<and>
          (encodeDefaults enc \<or> \<not> loose_eq env (get_prop env (template c) fr) (JStr i))"
    using that by (intro encodeValue_reference) simp_all
  have o: "encodeValue env h enc c (JStr fo) vo st =
            (case dom_setAttribute env child ''as''
                    (js_toString env (getAttributeName env c (JStr fo))) of
               Inl e \<Rightarrow> Inl e
             | Inr child' \<Rightarrow> Inr (appendChild (fst st) (ElementNode child'), snd st))"
    if "\<not> isReference c (JStr fo) \<and> \<not> is_nullish vo \<and> typeof h vo = TObject \<and>
          (encodeDefaults enc \<or> \<not> loose_eq env (get_prop env (template c) fo) vo) \<and>
          enc_encode enc vo = Some child"
    using that by (intro encodeValue_object) simp_all
  have p: "encodeValue env h enc c (JStr fp) vp st =
            (case dom_setAttribute env (fst st)
                    (js_toString env (getAttributeName env c (JStr fp))) (js_toString env v') of
               Inl e \<Rightarrow> Inl e
             | Inr n \<Rightarrow> Inr (n, snd st))"
    if q: "\<not> isReference c (JStr fp) \<and>
          (encodeDefaults enc \<or> \<not> loose_eq env (get_prop env (template c) fp) vp) \<and>
          (vp = JBool b \<or> vp = JNum m \<or> vp = JStr x) \<and>
          convertAttributeToXml env h vp = Inr v'"
  proof -
    have p1: "\<exists>b n x. vp = JBool b \<or> vp = JNum n \<or> vp = JStr x" using q by blast
    have p2: "\<exists>n x. v' = JNum n \<or> v' = JStr x"
      using q by (auto simp: convertAttributeToXml_primitive split: if_splits)
    from q show ?thesis by (intro encodeValue_attribute p1 p2) simp_all
  qed
  have bo: "convertAttributeToXml env h (JBool b) = Inr (JStr (if b then ''1'' else ''0''))"
    by (rule convertAttributeToXml_primitive)
  have el: "encodeValue env h enc c Null (JStr xa) st =
            Inr (appendChild (fst st) (ElementNode (Element ''add'' [(''value'', xa)] [])),
                 snd st)"
    if "isXmlName env ''add'' \<and> isXmlName env ''value''"
    using that by (intro encodeValue_element) simp_all
  from a b1 b2 d r o p bo el show ?thesis by blast
qed

lemma style_codec_fields:
  "template style_codec = plain ''Cell'' [(''style'', JStr ''default'')]"
  "exclude style_codec = [''parent'']"
  "idrefs style_codec = [''source'']"
  "mapping style_codec = empty_array"
  "reverse style_codec = empty_object"
  "getName style_codec = ''Cell''"
  by (simp_all add: style_codec_def mxObjectCodec_def getName_def plain_def for_in_def
      empty_array_def Let_def)

lemma style_defaults:
  "get_prop decimal_env (plain ''Cell'' [(''style'', JStr ''default'')]) ''style'' =
     JStr ''default''"
  "get_prop decimal_env (plain ''Cell'' [(''style'', JStr ''default'')]) ''value'' = Undefined"
  "get_prop decimal_env (plain ''Cell'' [(''style'', JStr ''default'')]) ''source'' = Undefined"
  "get_prop decimal_env (plain ''Cell'' [(''style'', JStr ''default'')]) ''geometry'' =
     Undefined"
  "get_prop decimal_env (plain ''Cell'' [(''style'', JStr ''default'')]) ''visible'' =
     Undefined"
  by (subst plain_get_prop; simp add: object_members_def)+

lemma style_names:
  "getAttributeName decimal_env style_codec (JStr ''value'') = JStr ''value''"
  "getAttributeName decimal_env style_codec (JStr ''source'') = JStr ''source''"
  "getAttributeName decimal_env style_codec (JStr ''geometry'') = JStr ''geometry''"
  "getAttributeName decimal_env style_codec (JStr ''visible'') = JStr ''visible''"
  by (rule getAttributeName_own, simp only: style_codec_fields, rule nothing_inherited;
      simp add: object_members_def array_members_def)+

lemma style_xml_names:
  "is_xml_name ''source''" "is_xml_name ''visible''" "is_xml_name ''geometry''"
  by (simp_all add: is_xml_name_def is_name_start_def is_name_char_def Let_def)

lemma style_refs:
  "\<not> isReference style_codec (JStr ''style'')" "\<not> isReference style_codec (JStr ''value'')"
  "isReference style_codec (JStr ''source'')" "\<not> isReference style_codec (JStr ''geometry'')"
  "\<not> isReference style_codec (JStr ''visible'')"
  by (simp_all add: isReference_JStr style_codec_fields)

lemma style_excluded:
  "\<not> isExcluded decimal_env style_codec (JStr ''style'')"
  "\<not> isExcluded decimal_env style_codec (JStr ''value'')"
  "\<not> isExcluded decimal_env style_codec (JStr ''source'')"
  "\<not> isExcluded decimal_env style_codec (JStr ''geometry'')"
  "\<not> isExcluded decimal_env style_codec (JStr ''visible'')"
  by (simp_all add: isExcluded_JStr style_codec_fields decimal_env_fields)

lemma style_not_integer:
  "\<not> isInteger decimal_env ''style''" "\<not> isInteger decimal_env ''value''"
  "\<not> isInteger decimal_env ''source''" "\<not> isInteger decimal_env ''geometry''"
  "\<not> isInteger decimal_env ''visible''"
  by (simp_all add: decimal_env_fields decimal_isInteger_def is_digit_def digit_val_def)

lemma styled_kind: "kind (styled_heap a) = PlainObject"
  by (simp add: styled_heap_def plain_def)

lemma for_in_styled:
  "for_in (styled_heap a) =
     [(''value'', JStr ''hello''), (''style'', JStr ''default''), (''source'', JObj 3),
      (''geometry'', JObj 2), (''visible'', JBool True)]"
  by (simp add: for_in_def styled_heap_def plain_def index_of_name_def digit_val_def)

lemma naming_encoder_fields:
  "enc_getId naming_encoder (JObj 3) = Some ''n3''"
  "enc_getId naming_encoder (JObj 0) = None"
  "enc_encode naming_encoder v = Some (Element ''Geometry'' [] [])"
  "\<not> encodeDefaults naming_encoder"
  by (simp_all add: naming_encoder_def)

lemma styled_values:
  "encodeValue decimal_env styled_heap naming_encoder style_codec (JStr ''value'')
     (JStr ''hello'') (Element n as cs, l) =
     Inr (Element n (set_assoc as ''value'' ''hello'') cs, l)"
  "encodeValue decimal_env styled_heap naming_encoder style_codec (JStr ''style'')
     (JStr ''default'') (Element n as cs, l) = Inr (Element n as cs, l)"
  "encodeValue decimal_env styled_heap naming_encoder style_codec (JStr ''source'')
     (JObj 3) (Element n as cs, l) = Inr (Element n (set_assoc as ''source'' ''n3'') cs, l)"
  "encodeValue decimal_env styled_heap naming_encoder style_codec (JStr ''geometry'')
     (JObj 2) (Element n as cs, l) =
     Inr (Element n as (cs @ [ElementNode (Element ''Geometry'' [(''as'', ''geometry'')] [])]),
          l)"
  "encodeValue decimal_env styled_heap naming_encoder style_codec (JStr ''visible'')
     (JBool True) (Element n as cs, l) =
     Inr (Element n (set_assoc as ''visible'' ''1'') cs, l)"
proof -
  have p2: "\<exists>n x. JStr y = JNum n \<or> JStr y = JStr x" for y by blast
  have d1: "\<not> loose_eq decimal_env Undefined (JStr y)" for y
    by (simp add: loose_eq_def bool_to_number_def)
  have d2: "\<not> loose_eq decimal_env Undefined (JBool y)" for y
    by (simp add: loose_eq_def bool_to_number_def)
  have d3: "\<not> loose_eq decimal_env Undefined (JObj y)" for y
    by (simp add: loose_eq_def is_nullish_def)
  have s1: "\<exists>b n x. JStr ''hello'' = JBool b \<or> JStr ''hello'' = JNum n \<or> JStr ''hello'' = JStr x"
    by blast
  show "encodeValue decimal_env styled_heap naming_encoder style_codec (JStr ''value'')
     (JStr ''hello'') (Element n as cs, l) =
     Inr (Element n (set_assoc as ''value'' ''hello'') cs, l)"
    using encodeValue_attribute[OF style_refs(2) _ s1 convertAttributeToXml_primitive(2) p2,
            of naming_encoder decimal_env styled_heap "(Element n as cs, l)"]
    by (simp add: style_codec_fields style_defaults d1 style_names js_toString_def
        dom_setAttribute_def decimal_env_fields xml_names)
  show "encodeValue decimal_env styled_heap naming_encoder style_codec (JStr ''style'')
     (JStr ''default'') (Element n as cs, l) = Inr (Element n as cs, l)"
    by (rule encodeValue_default)
      (simp_all add: style_refs naming_encoder_fields style_codec_fields style_defaults
        loose_eq_def bool_to_number_def)
  have nn: "\<not> is_nullish (JObj y)" for y by (simp add: is_nullish_def)
  show "encodeValue decimal_env styled_heap naming_encoder style_codec (JStr ''source'')
     (JObj 3) (Element n as cs, l) = Inr (Element n (set_assoc as ''source'' ''n3'') cs, l)"
    using encodeValue_reference[OF style_refs(3) nn naming_encoder_fields(1),
            of decimal_env styled_heap "(Element n as cs, l)"]
    by (simp add: style_codec_fields style_defaults d1 style_names js_toString_def
        dom_setAttribute_def decimal_env_fields style_xml_names)
  have ty: "typeof styled_heap (JObj 2) = TObject"
    by (simp add: typeof_def styled_kind)
  show "encodeValue decimal_env styled_heap naming_encoder style_codec (JStr ''geometry'')
     (JObj 2) (Element n as cs, l) =
     Inr (Element n as (cs @ [ElementNode (Element ''Geometry'' [(''as'', ''geometry'')] [])]),
          l)"
    using encodeValue_object[OF style_refs(4) nn ty _ naming_encoder_fields(3),
            of decimal_env "(Element n as cs, l)"]
    by (simp add: style_codec_fields style_defaults d3 style_names js_toString_def
        dom_setAttribute_def decimal_env_fields xml_names appendChild_def)
  have s2: "\<exists>b n x. JBool True = JBool b \<or> JBool True = JNum n \<or> JBool True = JStr x"
    by blast
  have c: "convertAttributeToXml decimal_env styled_heap (JBool True) = Inr (JStr ''1'')"
    by (simp add: convertAttributeToXml_primitive)
  show "encodeValue decimal_env styled_heap naming_encoder style_codec (JStr ''visible'')
     (JBool True) (Element n as cs, l) =
     Inr (Element n (set_assoc as ''visible'' ''1'') cs, l)"
    using encodeValue_attribute[OF style_refs(5) _ s2 c p2,
            of naming_encoder "(Element n as cs, l)"]
    by (simp add: style_codec_fields style_defaults d2 style_names js_toString_def
        dom_setAttribute_def decimal_env_fields style_xml_names)
qed

lemma encode_styled:
  "encode decimal_env styled_heap naming_encoder style_codec 0 [] =
     Inr (Element ''Cell'' [(''value'', ''hello''), (''source'', ''n3''), (''visible'', ''1'')]
            [ElementNode (Element ''Geometry'' [(''as'', ''geometry'')] [])], [])"
proof -
  have n0: "createElement decimal_env (getName style_codec) = Inr (Element ''Cell'' [] [])"
    by (simp add: createElement_def style_codec_fields decimal_env_fields xml_names)
  have n1: "enc_setAttribute decimal_env (Element ''Cell'' [] []) (JStr ''id'')
              (case enc_getId naming_encoder (JObj 0) of None \<Rightarrow> Null | Some i \<Rightarrow> JStr i) =
            Inr (Element ''Cell'' [] [])"
    by (simp add: enc_setAttribute_def naming_encoder_fields is_nullish_def)
  have "encodeObject decimal_env styled_heap naming_encoder style_codec 0
          (Element ''Cell'' [] [], []) =
        Inr (Element ''Cell'' [(''value'', ''hello''), (''source'', ''n3''), (''visible'', ''1'')]
               [ElementNode (Element ''Geometry'' [(''as'', ''geometry'')] [])], [])"
    unfolding encodeObject_def for_in_styled fst_conv snd_conv n1
    by (simp add: style_excluded style_not_integer is_nullish_def styled_values)
  then show ?thesis
    by (simp add: encode_def n0 beforeEncode_def afterEncode_def)
qed

theorem encode_writes_fields_that_differ_from_the_template_witness:
  "encode decimal_env styled_heap naming_encoder style_codec 0 [] =
     Inr (Element ''Cell'' [(''value'', ''hello''), (''source'', ''n3''), (''visible'', ''1'')]
            [ElementNode (Element ''Geometry'' [(''as'', ''geometry'')] [])], []) \<and>
   getName style_codec = ''Cell'' \<and>
   \<not> is_nullish (JStr ''hello'') \<and> \<not> isExcluded decimal_env style_codec (JStr ''value'') \<and>
   encodeFields decimal_env styled_heap naming_encoder style_codec
     [(''value'', JStr ''hello'')] (Element ''Cell'' [] [], []) =
     Inr (Element ''Cell'' [(''value'', ''hello'')] [], []) \<and>
   isExcluded decimal_env style_codec (JStr ''parent'') \<and>
   encodeFields decimal_env styled_heap naming_encoder style_codec
     [(''parent'', JObj 1)] (Element ''Cell'' [] [], []) = Inr (Element ''Cell'' [] [], []) \<and>
   \<not> isReference style_codec (JStr ''style'') \<and> \<not> encodeDefaults naming_encoder \<and>
   loose_eq decimal_env (get_prop decimal_env (template style_codec) ''style'')
     (JStr ''default'') \<and>
   encodeValue decimal_env styled_heap naming_encoder style_codec (JStr ''style'')
     (JStr ''default'') (Element ''Cell'' [] [], []) = Inr (Element ''Cell'' [] [], []) \<and>
   isReference style_codec (JStr ''source'') \<and> \<not> is_nullish (JObj 3) \<and>
   enc_getId naming_encoder (JObj 3) = Some ''n3'' \<and>
   \<not> loose_eq decimal_env (get_prop decimal_env (template style_codec) ''source'')
       (JStr ''n3'') \<and>
   encodeValue decimal_env styled_heap naming_encoder style_codec (JStr ''source'')
     (JObj 3) (Element ''Cell'' [] [], []) =
     Inr (Element ''Cell'' [(''source'', ''n3'')] [], []) \<and>
   \<not> isReference style_codec (JStr ''geometry'') \<and> \<not> is_nullish (JObj 2) \<and>
   typeof styled_heap (JObj 2) = TObject \<and>
   \<not> loose_eq decimal_env (get_prop decimal_env (template style_codec) ''geometry'')
       (JObj 2) \<and>
   enc_encode naming_encoder (JObj 2) = Some (Element ''Geometry'' [] []) \<and>
   encodeValue decimal_env styled_heap naming_encoder style_codec (JStr ''geometry'')
     (JObj 2) (Element ''Cell'' [] [], []) =
     Inr (Element ''Cell'' []
            [ElementNode (Element ''Geometry'' [(''as'', ''geometry'')] [])], []) \<and>
   \<not> isReference style_codec (JStr ''visible'') \<and>
   \<not> loose_eq decimal_env (get_prop decimal_env (template style_codec) ''visible'')
       (JBool True) \<and>
   convertAttributeToXml decimal_env styled_heap (JBool True) = Inr (JStr ''1'') \<and>
   encodeValue decimal_env styled_heap naming_encoder style_codec (JStr ''visible'')
     (JBool True) (Element ''Cell'' [] [], []) =
     Inr (Element ''Cell'' [(''visible'', ''1'')] [], []) \<and>
   isXmlName decimal_env ''add'' \<and> isXmlName decimal_env ''value'' \<and>
   encodeValue decimal_env styled_heap naming_encoder style_codec Null (JStr ''x'')
     (Element ''Cell'' [] [], []) =
     Inr (Element ''Cell'' [] [ElementNode (Element ''add'' [(''value'', ''x'')] [])], [])"
proof -
  note t = encode_writes_fields_that_differ_from_the_template
      [where env = decimal_env and h = styled_heap and enc = naming_encoder
         and c = style_codec and obj = 0 and l = "[]"
         and node = "Element ''Cell''
                       [(''value'', ''hello''), (''source'', ''n3''), (''visible'', ''1'')]
                       [ElementNode (Element ''Geometry'' [(''as'', ''geometry'')] [])]"
         and l' = "[]" and v = "JStr ''hello''" and f = "''value''" and fs = "[]"
         and st = "(Element ''Cell'' [] [], [])" and ve = "JObj 1" and fe = "''parent''"
         and fd = "''style''" and vd = "JStr ''default''"
         and fr = "''source''" and vr = "JObj 3" and i = "''n3''"
         and fo = "''geometry''" and vo = "JObj 2" and child = "Element ''Geometry'' [] []"
         and fp = "''visible''" and vp = "JBool True" and b = True and v' = "JStr ''1''"
         and xa = "''x''"]
  note c1 = t[THEN conjunct1]
  note r1 = t[THEN conjunct2]
  note c2 = r1[THEN conjunct1]
  note r2 = r1[THEN conjunct2]
  note c3 = r2[THEN conjunct1]
  note r3 = r2[THEN conjunct2]
  note c4 = r3[THEN conjunct1]
  note r4 = r3[THEN conjunct2]
  note c5 = r4[THEN conjunct1]
  note r5 = r4[THEN conjunct2]
  note c6 = r5[THEN conjunct1]
  note r6 = r5[THEN conjunct2]
  note c7 = r6[THEN conjunct1]
  note r7 = r6[THEN conjunct2]
  note c8 = r7[THEN conjunct1]
  note c9 = r7[THEN conjunct2]
  have nn: "\<not> is_nullish (JStr ''hello'')" "\<not> is_nullish (JObj 3)" "\<not> is_nullish (JObj 2)"
    by (simp_all add: is_nullish_def)
  have ex: "isExcluded decimal_env style_codec (JStr ''parent'')"
    by (simp add: isExcluded_JStr style_codec_fields)
  have df: "loose_eq decimal_env (get_prop decimal_env (template style_codec) ''style'')
     (JStr ''default'')"
    "\<not> loose_eq decimal_env (get_prop decimal_env (template style_codec) ''source'')
       (JStr ''n3'')"
    "\<not> loose_eq decimal_env (get_prop decimal_env (template style_codec) ''geometry'')
       (JObj 2)"
    "\<not> loose_eq decimal_env (get_prop decimal_env (template style_codec) ''visible'')
       (JBool True)"
    by (simp_all add: style_codec_fields style_defaults loose_eq_def bool_to_number_def
        is_nullish_def)
  have ty: "typeof styled_heap (JObj 2) = TObject"
    by (simp add: typeof_def styled_kind)
  have xn: "isXmlName decimal_env ''add''" "isXmlName decimal_env ''value''"
    by (simp_all add: decimal_env_fields xml_names)
  have g1: "getName style_codec = ''Cell''"
    using c1[THEN mp, OF encode_styled] by simp
  have g2: "encodeFields decimal_env styled_heap naming_encoder style_codec
     [(''value'', JStr ''hello'')] (Element ''Cell'' [] [], []) =
     Inr (Element ''Cell'' [(''value'', ''hello'')] [], [])"
    using c2[THEN mp, OF conjI[OF nn(1) style_excluded(2)]]
    by (simp add: style_not_integer styled_values)
  have g3: "encodeFields decimal_env styled_heap naming_encoder style_codec
     [(''parent'', JObj 1)] (Element ''Cell'' [] [], []) = Inr (Element ''Cell'' [] [], [])"
    using c3[THEN mp, OF disjI2[OF ex]] by simp
  have g4: "encodeValue decimal_env styled_heap naming_encoder style_codec (JStr ''style'')
     (JStr ''default'') (Element ''Cell'' [] [], []) = Inr (Element ''Cell'' [] [], [])"
    using c4[THEN mp, OF conjI[OF style_refs(1) conjI[OF naming_encoder_fields(4) df(1)]]] .
  have g5: "encodeValue decimal_env styled_heap naming_encoder style_codec (JStr ''source'')
     (JObj 3) (Element ''Cell'' [] [], []) =
     Inr (Element ''Cell'' [(''source'', ''n3'')] [], [])"
    using c5[THEN mp, OF conjI[OF style_refs(3) conjI[OF nn(2)
               conjI[OF naming_encoder_fields(1) disjI2[OF df(2)]]]]]
    by (simp add: style_names js_toString_def dom_setAttribute_def decimal_env_fields
        style_xml_names)
  have g6: "encodeValue decimal_env styled_heap naming_encoder style_codec (JStr ''geometry'')
     (JObj 2) (Element ''Cell'' [] [], []) =
     Inr (Element ''Cell'' []
            [ElementNode (Element ''Geometry'' [(''as'', ''geometry'')] [])], [])"
    using c6[THEN mp, OF conjI[OF style_refs(4) conjI[OF nn(3) conjI[OF ty
               conjI[OF disjI2[OF df(3)] naming_encoder_fields(3)]]]]]
    by (simp add: style_names js_toString_def dom_setAttribute_def decimal_env_fields
        xml_names appendChild_def)
  have cb: "convertAttributeToXml decimal_env styled_heap (JBool True) = Inr (JStr ''1'')"
    using c8 by simp
  have g7: "encodeValue decimal_env styled_heap naming_encoder style_codec (JStr ''visible'')
     (JBool True) (Element ''Cell'' [] [], []) =
     Inr (Element ''Cell'' [(''visible'', ''1'')] [], [])"
    using c7[THEN mp, OF conjI[OF style_refs(5) conjI[OF disjI2[OF df(4)]
               conjI[OF disjI1[OF refl] cb]]]]
    by (simp add: style_names js_toString_def dom_setAttribute_def decimal_env_fields
        style_xml_names)
  have g9: "encodeValue decimal_env styled_heap naming_encoder style_codec Null (JStr ''x'')
     (Element ''Cell'' [] [], []) =
     Inr (Element ''Cell'' [] [ElementNode (Element ''add'' [(''value'', ''x'')] [])], [])"
    using c9[THEN mp, OF conjI[OF xn]] by (simp add: appendChild_def)
  show ?thesis
    by (intro conjI encode_styled g1 nn style_excluded(2) g2 ex g3 style_refs(1)
        naming_encoder_fields(4) df g4 style_refs(3) naming_encoder_fields(1) g5 style_refs(4)
        ty naming_encoder_fields(3) g6 style_refs(5) cb g7 xn g9)
qed

text \<open>
  Claim C4 fails as worded.  The field \<open>style\<close> of the cell is enumerated, is not
  excluded, is not a reference and holds a string; its value is the one the codec's
  template has, and the node that \<open>encode\<close> returns has no attribute \<open>style\<close>.
\<close>

theorem default_valued_field_is_not_encoded:
  "(''style'', JStr ''default'') \<in> set (for_in (styled_heap 0)) \<and>
   \<not> isExcluded decimal_env style_codec (JStr ''style'') \<and>
   \<not> isReference style_codec (JStr ''style'') \<and>
   encode decimal_env styled_heap naming_encoder style_codec 0 [] =
     Inr (Element ''Cell'' [(''value'', ''hello''), (''source'', ''n3''), (''visible'', ''1'')]
            [ElementNode (Element ''Geometry'' [(''as'', ''geometry'')] [])], []) \<and>
   getAttribute
     (Element ''Cell'' [(''value'', ''hello''), (''source'', ''n3''), (''visible'', ''1'')]
        [ElementNode (Element ''Geometry'' [(''as'', ''geometry'')] [])]) ''style'' = None"
  by (intro conjI style_excluded(1) style_refs(1) encode_styled)
    (simp_all add: for_in_styled getAttribute_def)

end
